theory Spec2Isabelle
  imports Complex_Main
begin

section \<open>GameTypes: the data model\<close>

text \<open>
  JavaScript numbers are modelled in two sorts: pixel geometry and speeds are \<open>real\<close>
  (the idealisation of the doubles the program computes with), counters, currency balances,
  lives and millisecond timestamps are \<open>int\<close>. Interfaces become records, interface
  extension becomes record extension, string unions become datatypes, optional fields
  become \<open>option\<close>. Field names are those of the source, with a prefix where the name is
  taken (\<open>pos_x\<close>, \<open>vel_x\<close> for the two \<open>x\<close>; \<open>obstacle_type\<close>; \<open>coin_value\<close>;
  \<open>power_id\<close>, \<open>power_name\<close>, \<open>power_active\<close>; \<open>gs_gameOver\<close>; \<open>p_position\<close>,
  \<open>p_velocity\<close>, \<open>p_size\<close> of a particle). The field \<open>type\<close> of a collectible has the
  single member \<open>'coin'\<close> and is left out.
\<close>

record Position =
  pos_x :: real
  pos_y :: real

record Velocity =
  vel_x :: real
  vel_y :: real

record GameObject =
  position :: Position
  velocity :: Velocity
  width :: real
  height :: real
  active :: bool

record Player = GameObject +
  isJumping :: bool
  isGrounded :: bool
  jumpCount :: int
  maxJumps :: int

datatype obstacle_kind = meteorite | rock | flag

record Obstacle = GameObject +
  obstacle_type :: obstacle_kind
  rotation :: real
  rotationSpeed :: real

record Collectible = GameObject +
  collected :: bool
  animation :: real
  coin_value :: int
  magnetized :: "bool option"

record Particle =
  p_position :: Position
  p_velocity :: Velocity
  life :: int
  maxLife :: int
  color :: string
  p_size :: real

record GameState =
  isPlaying :: bool
  score :: int
  coins :: int
  highScore :: int
  highCoins :: int
  gs_gameOver :: bool
  level :: int

record PowerUp =
  power_id :: string
  power_name :: string
  description :: string
  cost :: int
  icon :: string
  owned :: bool
  power_active :: bool
  duration :: "int option"
  usesRemaining :: "int option"
  maxUses :: "int option"

record ShopState =
  isOpen :: bool
  availablePowers :: "PowerUp list"

section \<open>GameUtils: configuration and helper functions\<close>

definition CANVAS_WIDTH :: real where "CANVAS_WIDTH = 800"
definition CANVAS_HEIGHT :: real where "CANVAS_HEIGHT = 600"
definition GRAVITY :: real where "GRAVITY = 0.5"
definition JUMP_FORCE :: real where "JUMP_FORCE = - 11"
definition GROUND_Y :: real where "GROUND_Y = 500"
definition BASE_SCROLL_SPEED :: real where "BASE_SCROLL_SPEED = 4"
definition MAX_SCROLL_SPEED :: real where "MAX_SCROLL_SPEED = 16"
definition SPEED_INCREASE_RATE :: real where "SPEED_INCREASE_RATE = 0.003"
definition COIN_VALUE :: int where "COIN_VALUE = 10"

text \<open>\<open>getGameSpeed(score)\<close>: linear ramp in the score, clamped by \<open>Math.min\<close>.\<close>

definition getGameSpeed :: "real \<Rightarrow> real" where
  "getGameSpeed sc =
     (let speedIncrease = sc * SPEED_INCREASE_RATE
      in min (BASE_SCROLL_SPEED + speedIncrease) MAX_SCROLL_SPEED)"

text \<open>\<open>checkCollision(obj1, obj2)\<close>: strict overlap of the two bounding boxes.\<close>

definition checkCollision :: "'a GameObject_scheme \<Rightarrow> 'b GameObject_scheme \<Rightarrow> bool" where
  "checkCollision obj1 obj2 \<longleftrightarrow>
     pos_x (position obj1) < pos_x (position obj2) + width obj2 \<and>
     pos_x (position obj1) + width obj1 > pos_x (position obj2) \<and>
     pos_y (position obj1) < pos_y (position obj2) + height obj2 \<and>
     pos_y (position obj1) + height obj1 > pos_y (position obj2)"

definition isOffScreen :: "'a GameObject_scheme \<Rightarrow> bool" where
  "isOffScreen obj \<longleftrightarrow> pos_x (position obj) + width obj < - 100"

text \<open>
  \<open>Math.random()\<close> returns a number in the half-open unit interval. The type \<open>rand01\<close>
  holds exactly those numbers; the random source of a run is a stream \<open>nat \<Rightarrow> rand01\<close>
  of draws, and the state counts how many draws have been consumed.
\<close>

typedef rand01 = "{r :: real. 0 \<le> r \<and> r < 1}"
  by (rule exI [of _ 0]) simp

setup_lifting type_definition_rand01

lift_definition draw_half :: rand01 is "1 / 2 :: real"
  by simp

type_synonym rng = "nat \<Rightarrow> rand01"

definition Math_random :: "rng \<Rightarrow> nat \<Rightarrow> real" where
  "Math_random rnd k = Rep_rand01 (rnd k)"

text \<open>
  \<open>createParticle(position, color)\<close> draws the two velocity components and the size, in
  this order; \<open>k\<close> is the index of its first draw.
\<close>

definition createParticle :: "rng \<Rightarrow> nat \<Rightarrow> Position \<Rightarrow> string \<Rightarrow> Particle" where
  "createParticle rnd k pos col =
     \<lparr> p_position = pos,
       p_velocity = \<lparr> vel_x = (Math_random rnd k - 0.5) * 8,
                      vel_y = (Math_random rnd (k + 1) - 0.5) * 8 \<rparr>,
       life = 30,
       maxLife = 30,
       color = col,
       p_size = Math_random rnd (k + 2) * 4 + 2 \<rparr>"

definition updateParticles :: "Particle list \<Rightarrow> Particle list" where
  "updateParticles ps =
     filter (\<lambda>particle. life particle > 0)
       (map (\<lambda>particle. particle
               \<lparr> p_position :=
                   \<lparr> pos_x = pos_x (p_position particle) + vel_x (p_velocity particle),
                     pos_y = pos_y (p_position particle) + vel_y (p_velocity particle) \<rparr>,
                 p_velocity :=
                   \<lparr> vel_x = vel_x (p_velocity particle) * 0.98,
                     vel_y = vel_y (p_velocity particle) * 0.98 \<rparr>,
                 life := life particle - 1 \<rparr>) ps)"

definition particle_colors :: "string list" where
  "particle_colors = [''#fbbf24'', ''#f97316'', ''#ef4444'', ''#8b5cf6'', ''#06b6d4'']"

text \<open>
  \<open>getRandomColor()\<close>: \<open>colors[Math.floor(Math.random() * colors.length)]\<close>; the index is
  below 5 for every draw of the unit interval (lemma \<open>color_index_in_range\<close>).
\<close>

definition getRandomColor :: "rng \<Rightarrow> nat \<Rightarrow> string" where
  "getRandomColor rnd k =
     particle_colors ! nat \<lfloor>Math_random rnd k * real (length particle_colors)\<rfloor>"

definition getCoinColor :: string where
  "getCoinColor = ''#fbbf24''"

section \<open>The persistence store and the number conversions of the language\<close>

text \<open>
  \<open>localStorage\<close> is a map from keys to strings; a string is a sequence of code units
  below 256. \<open>parseInt\<close> follows the language definition with no radix argument: leading
  white space is dropped, one sign is read, a prefix \<open>0x\<close> or \<open>0X\<close> selects radix 16,
  and the longest prefix of digits is converted; with no digit the result is \<open>NaN\<close>.
  The white space and line terminators of the language below 256 are the code units 9
  to 13, 32 (space) and 160 (no-break space). The result is exact here (the program's
  doubles round integers beyond \<open>2^53\<close>).
\<close>

datatype jsnum = NaN | Num int

definition isWhiteSpace :: "char \<Rightarrow> bool" where
  "isWhiteSpace c \<longleftrightarrow> (of_char c :: nat) \<in> {9, 10, 11, 12, 13, 32, 160}"

definition digitValue :: "char \<Rightarrow> int option" where
  "digitValue c =
     (let n = (of_char c :: nat) in
      if 48 \<le> n \<and> n \<le> 57 then Some (int n - 48)
      else if 97 \<le> n \<and> n \<le> 102 then Some (int n - 87)
      else if 65 \<le> n \<and> n \<le> 70 then Some (int n - 55)
      else None)"

definition radixDigit :: "int \<Rightarrow> char \<Rightarrow> int option" where
  "radixDigit R c =
     (case digitValue c of None \<Rightarrow> None | Some d \<Rightarrow> if d < R then Some d else None)"

fun mathInt :: "int \<Rightarrow> int \<Rightarrow> string \<Rightarrow> int" where
  "mathInt R acc [] = acc"
| "mathInt R acc (c # cs) =
     (case radixDigit R c of None \<Rightarrow> acc | Some d \<Rightarrow> mathInt R (acc * R + d) cs)"

definition parseInt :: "string \<Rightarrow> jsnum" where
  "parseInt inputString =
     (let S = dropWhile isWhiteSpace inputString;
          sign = (if S \<noteq> [] \<and> hd S = CHR ''-'' then - 1 else (1 :: int));
          S1 = (if S \<noteq> [] \<and> (hd S = CHR ''+'' \<or> hd S = CHR ''-'') then tl S else S);
          hex = (2 \<le> length S1 \<and> (take 2 S1 = ''0x'' \<or> take 2 S1 = ''0X''));
          R = (if hex then 16 else 10);
          S2 = (if hex then drop 2 S1 else S1)
      in case S2 of
           [] \<Rightarrow> NaN
         | c # cs \<Rightarrow> (case radixDigit R c of None \<Rightarrow> NaN | Some d \<Rightarrow> Num (sign * mathInt R 0 S2)))"

text \<open>\<open>n.toString()\<close> for an integer: decimal digits, with a minus sign when negative.\<close>

definition digit_char :: "nat \<Rightarrow> char" where
  "digit_char d = ''0123456789'' ! d"

function digits_of_nat :: "nat \<Rightarrow> string" where
  "digits_of_nat n =
     (if n < 10 then [digit_char n]
      else digits_of_nat (n div 10) @ [digit_char (n mod 10)])"
  by pat_completeness auto
termination
  by (relation "measure id") auto

definition toString :: "int \<Rightarrow> string" where
  "toString n = (if n < 0 then CHR ''-'' # digits_of_nat (nat (- n)) else digits_of_nat (nat n))"

type_synonym storage = "string \<rightharpoonup> string"

definition setItem :: "string \<Rightarrow> string \<Rightarrow> storage \<Rightarrow> storage" where
  "setItem k v store = store(k \<mapsto> v)"

text \<open>
  Every numeric read of the hook is the expression
  \<open>parseInt(localStorage.getItem(key) || '0')\<close>: \<open>getItem\<close> gives \<open>null\<close> for an absent key,
  and \<open>||\<close> replaces \<open>null\<close> and the empty string (the falsy strings) by \<open>'0'\<close>.
\<close>

definition getItem_or_0 :: "storage \<Rightarrow> string \<Rightarrow> string" where
  "getItem_or_0 store k = (case store k of None \<Rightarrow> ''0'' | Some v \<Rightarrow> if v = [] then ''0'' else v)"

definition stored_number :: "storage \<Rightarrow> string \<Rightarrow> jsnum" where
  "stored_number store k = parseInt (getItem_or_0 store k)"

text \<open>The state initialisers of \<open>useGameLogic\<close> that read the store.\<close>

definition initial_highScore :: "storage \<Rightarrow> jsnum" where
  "initial_highScore store = stored_number store ''dogeHighScore''"

definition initial_highCoins :: "storage \<Rightarrow> jsnum" where
  "initial_highCoins store = stored_number store ''dogeHighCoins''"

definition initial_totalCoinsCollected :: "storage \<Rightarrow> jsnum" where
  "initial_totalCoinsCollected store = stored_number store ''dogeTotalCoins''"

definition initial_dogevisions :: "storage \<Rightarrow> jsnum" where
  "initial_dogevisions store = stored_number store ''dogeDogevisions''"

definition initial_doubleCollectorUses :: "storage \<Rightarrow> jsnum" where
  "initial_doubleCollectorUses store = stored_number store ''dogeDoubleCollectorUses''"

definition initial_magneticCollectorUses :: "storage \<Rightarrow> jsnum" where
  "initial_magneticCollectorUses store = stored_number store ''dogeMagneticCollectorUses''"

definition initial_threeLivesUses :: "storage \<Rightarrow> jsnum" where
  "initial_threeLivesUses store = stored_number store ''dogeThreeLivesUses''"

text \<open>The seven numeric reads: each key with the initialiser that reads it.\<close>

definition numeric_reads :: "(string \<times> (storage \<Rightarrow> jsnum)) list" where
  "numeric_reads =
     [ (''dogeHighScore'', initial_highScore),
       (''dogeHighCoins'', initial_highCoins),
       (''dogeTotalCoins'', initial_totalCoinsCollected),
       (''dogeDogevisions'', initial_dogevisions),
       (''dogeDoubleCollectorUses'', initial_doubleCollectorUses),
       (''dogeMagneticCollectorUses'', initial_magneticCollectorUses),
       (''dogeThreeLivesUses'', initial_threeLivesUses) ]"

section \<open>useGameLogic: the state of the hook\<close>

text \<open>
  All \<open>useState\<close> cells of the hook that the game logic reads or writes, together with the
  persistence store, the due times of the pending \<open>setTimeout\<close> callbacks (the hook's
  only time-out is the one that ends invulnerability) and the number of random draws
  consumed so far. A callback is a function from state to state; \<open>Date.now()\<close> is the
  argument \<open>now\<close> (milliseconds), one reading per callback. The cells that only the
  renderer and the keyboard handlers use (\<open>stars\<close>, \<open>gameLoopRef\<close>, \<open>keysRef\<close>) are
  left out.
\<close>

record hook =
  gameState :: GameState
  totalCoinsCollected :: int
  dogevisions :: int
  lives :: int
  maxLives :: int
  isInvulnerable :: bool
  shopState :: ShopState
  activePowers :: "string \<rightharpoonup> int"
  player :: Player
  obstacles :: "Obstacle list"
  collectibles :: "Collectible list"
  particles :: "Particle list"
  worldOffset :: real
  nextObstacleX :: real
  currentSpeed :: real
  localStorage :: storage
  timeouts :: "int list"
  rngPos :: nat

subsection \<open>Shop and economy\<close>

definition openShop :: "hook \<Rightarrow> hook" where
  "openShop s = s\<lparr>shopState := (shopState s)\<lparr>isOpen := True\<rparr>\<rparr>"

definition closeShop :: "hook \<Rightarrow> hook" where
  "closeShop s = s\<lparr>shopState := (shopState s)\<lparr>isOpen := False\<rparr>\<rparr>"

record ExchangeResult =
  success :: bool
  dogevisionsAdded :: int
  osSpent :: int

definition Math_floor :: "real \<Rightarrow> int" where
  "Math_floor r = \<lfloor>r\<rfloor>"

definition exchangeForDogevision :: "hook \<Rightarrow> ExchangeResult \<times> hook" where
  "exchangeForDogevision s =
     (let EXCHANGE_RATE = (1000 :: int);
          maxExchangeable = Math_floor (of_int (totalCoinsCollected s) / of_int EXCHANGE_RATE)
      in if maxExchangeable > 0 then
           let osToSpend = maxExchangeable * EXCHANGE_RATE;
               dogevisionsToAdd = maxExchangeable * 100;
               newTotalCoins = totalCoinsCollected s - osToSpend;
               newDogevisions = dogevisions s + dogevisionsToAdd
           in (\<lparr> success = True, dogevisionsAdded = dogevisionsToAdd, osSpent = osToSpend \<rparr>,
               s\<lparr> totalCoinsCollected := newTotalCoins,
                  dogevisions := newDogevisions,
                  localStorage :=
                    setItem ''dogeDogevisions'' (toString newDogevisions)
                      (setItem ''dogeTotalCoins'' (toString newTotalCoins) (localStorage s)) \<rparr>)
         else (\<lparr> success = False, dogevisionsAdded = 0, osSpent = 0 \<rparr>, s))"

text \<open>
  An optional number is falsy when it is \<open>undefined\<close> or \<open>0\<close>; \<open>a || d\<close> is \<open>a\<close> when
  \<open>a\<close> is truthy and \<open>d\<close> otherwise.
\<close>

definition or_else :: "int option \<Rightarrow> int \<Rightarrow> int" where
  "or_else v d = (case v of None \<Rightarrow> d | Some n \<Rightarrow> if n \<noteq> 0 then n else d)"

text \<open>The \<open>if\<close>/\<open>else if\<close> chain that saves a power's remaining uses under its own key.\<close>

definition save_uses :: "string \<Rightarrow> int \<Rightarrow> storage \<Rightarrow> storage" where
  "save_uses powerId n store =
     (if powerId = ''double_collector'' then setItem ''dogeDoubleCollectorUses'' (toString n) store
      else if powerId = ''magnetic_collector'' then setItem ''dogeMagneticCollectorUses'' (toString n) store
      else if powerId = ''three_lives'' then setItem ''dogeThreeLivesUses'' (toString n) store
      else store)"

definition buyPower :: "string \<Rightarrow> hook \<Rightarrow> hook" where
  "buyPower powerId s =
     (case find (\<lambda>p. power_id p = powerId) (availablePowers (shopState s)) of
        None \<Rightarrow> s
      | Some pw \<Rightarrow>
          if totalCoinsCollected s < cost pw then s
          else
            let newTotal = totalCoinsCollected s - cost pw;
                newUsesRemaining = or_else (usesRemaining pw) 0 + or_else (maxUses pw) 1
            in closeShop
                 (s\<lparr> totalCoinsCollected := newTotal,
                     localStorage :=
                       save_uses powerId newUsesRemaining
                         (setItem ''dogeTotalCoins'' (toString newTotal) (localStorage s)),
                     shopState := (shopState s)
                       \<lparr> availablePowers :=
                           map (\<lambda>p. if power_id p = powerId
                                     then p\<lparr>owned := True, usesRemaining := Some newUsesRemaining\<rparr>
                                     else p)
                             (availablePowers (shopState s)) \<rparr> \<rparr>))"

definition usePower :: "int \<Rightarrow> string \<Rightarrow> hook \<Rightarrow> hook" where
  "usePower now powerId s =
     (case find (\<lambda>p. power_id p = powerId) (availablePowers (shopState s)) of
        None \<Rightarrow> s
      | Some pw \<Rightarrow>
          (case usesRemaining pw of
             None \<Rightarrow> s
           | Some uses \<Rightarrow>
               if uses = 0 \<or> uses \<le> 0 then s
               else
                 let s1 = (case duration pw of
                             None \<Rightarrow> s
                           | Some d \<Rightarrow>
                               if d \<noteq> 0
                               then s\<lparr>activePowers := (activePowers s)(powerId \<mapsto> now + d * 1000)\<rparr>
                               else s);
                     s2 = (if powerId = ''three_lives'' then s1\<lparr>lives := 3, maxLives := 3\<rparr> else s1);
                     newUsesRemaining = uses - 1
                 in s2\<lparr> localStorage := save_uses powerId newUsesRemaining (localStorage s2),
                        shopState := (shopState s2)
                          \<lparr> availablePowers :=
                              map (\<lambda>p. if power_id p = powerId
                                        then p\<lparr>usesRemaining := Some newUsesRemaining,
                                               power_active := True\<rparr>
                                        else p)
                                (availablePowers (shopState s2)) \<rparr> \<rparr>))"

text \<open>
  \<open>activePowers.k && activePowers.k > Date.now()\<close>: the power \<open>k\<close> has an expiry time
  that is truthy and still in the future.
\<close>

definition power_running :: "(string \<rightharpoonup> int) \<Rightarrow> string \<Rightarrow> int \<Rightarrow> bool" where
  "power_running ap k now = (case ap k of None \<Rightarrow> False | Some t \<Rightarrow> t \<noteq> 0 \<and> t > now)"

subsection \<open>Jump\<close>

text \<open>
  \<open>jump()\<close>: only when the player stands on the ground and has not jumped. The five jump
  particles each take a random colour first and then the three draws of \<open>createParticle\<close>.
\<close>

definition jump :: "rng \<Rightarrow> hook \<Rightarrow> hook" where
  "jump rnd s =
     (if isGrounded (player s) \<and> jumpCount (player s) = 0 then
        let k = rngPos s;
            feet = \<lparr> pos_x = pos_x (position (player s)) + width (player s) / 2,
                     pos_y = pos_y (position (player s)) + height (player s) \<rparr>;
            jumpParticles =
              map (\<lambda>j. createParticle rnd (k + 4 * j + 1) feet (getRandomColor rnd (k + 4 * j))) [0..<5]
        in s\<lparr> player := (player s)
                 \<lparr> velocity := (velocity (player s))\<lparr>vel_y := JUMP_FORCE\<rparr>,
                   isJumping := True,
                   isGrounded := False,
                   jumpCount := 1 \<rparr>,
               particles := particles s @ jumpParticles,
               rngPos := k + 20 \<rparr>
      else s)"

subsection \<open>Lives, game over and collection\<close>

text \<open>
  \<open>loseLife\<close>, \<open>gameOver\<close> and \<open>collectCoin\<close> are called from the collision effect,
  several times in one pass. Each call reads the values of the render it was created in
  (its closure) and queues updates on the pending state. The model keeps the two apart:
  the argument \<open>c\<close> is the rendered state the callback closes over, \<open>st\<close> is the pending
  state the setters update. A single call on a fresh render is \<open>f c c\<close>.
\<close>

definition body_centre :: "'a GameObject_scheme \<Rightarrow> Position" where
  "body_centre obj =
     \<lparr> pos_x = pos_x (position obj) + width obj / 2,
       pos_y = pos_y (position obj) + height obj / 2 \<rparr>"

definition gameOver :: "rng \<Rightarrow> hook \<Rightarrow> hook \<Rightarrow> hook" where
  "gameOver rnd c st =
     (let prev = gameState st;
          newHighScore = max (score prev) (highScore prev);
          newHighCoins = max (coins prev) (highCoins prev);
          k = rngPos st;
          explosionParticles =
            map (\<lambda>j. createParticle rnd (k + 4 * j + 1) (body_centre (player c))
                        (getRandomColor rnd (k + 4 * j))) [0..<20]
      in st\<lparr> activePowers := Map.empty,
             lives := 1,
             maxLives := 1,
             isInvulnerable := False,
             shopState := (shopState st)
               \<lparr> availablePowers := map (\<lambda>p. p\<lparr>power_active := False\<rparr>) (availablePowers (shopState st)) \<rparr>,
             gameState := prev
               \<lparr> isPlaying := False, gs_gameOver := True,
                 highScore := newHighScore, highCoins := newHighCoins \<rparr>,
             localStorage :=
               setItem ''dogeHighCoins'' (toString newHighCoins)
                 (setItem ''dogeHighScore'' (toString newHighScore) (localStorage st)),
             particles := particles st @ explosionParticles,
             rngPos := k + 80 \<rparr>)"

definition loseLife :: "rng \<Rightarrow> int \<Rightarrow> hook \<Rightarrow> hook \<Rightarrow> hook" where
  "loseLife rnd now c st =
     (if isInvulnerable c then st
      else if lives c > 1 then
        let newLives = lives c - 1;
            k = rngPos st;
            damageParticles =
              map (\<lambda>j. createParticle rnd (k + 3 * j) (body_centre (player c)) ''#ef4444'') [0..<15]
        in st\<lparr> lives := newLives,
               isInvulnerable := True,
               timeouts := timeouts st @ [now + 2000],
               particles := particles st @ damageParticles,
               rngPos := k + 45 \<rparr>
      else gameOver rnd c st)"

text \<open>
  The time-out queued by \<open>loseLife\<close> runs \<open>setIsInvulnerable(false)\<close>. \<open>run_timeouts now\<close>
  fires every pending time-out whose due time has been reached.
\<close>

definition run_timeouts :: "int \<Rightarrow> hook \<Rightarrow> hook" where
  "run_timeouts now s =
     (if list_ex (\<lambda>due. due \<le> now) (timeouts s)
      then s\<lparr> isInvulnerable := False, timeouts := filter (\<lambda>due. now < due) (timeouts s) \<rparr>
      else s)"

text \<open>
  \<open>collectCoin(coin)\<close>: the coin is an element of the rendered list, given here by its
  index \<open>i\<close>; the identity test \<open>c === coin\<close> of the update selects that position.
\<close>

definition collectCoin :: "rng \<Rightarrow> int \<Rightarrow> hook \<Rightarrow> nat \<Rightarrow> hook \<Rightarrow> hook" where
  "collectCoin rnd now c i st =
     (let coin = collectibles c ! i in
      if collected coin \<or> \<not> active coin then st
      else
        let isDoubleCollectorActive = power_running (activePowers c) ''double_collector'' now;
            coinValue = (if isDoubleCollectorActive then coin_value coin * 2 else coin_value coin);
            coinsToAdd = (if isDoubleCollectorActive then 2 else 1);
            newTotal = totalCoinsCollected st + coinsToAdd;
            isMagneticActive = power_running (activePowers c) ''magnetic_collector'' now;
            particleCount = (if isDoubleCollectorActive then 16 else 8);
            particleColor = (if isMagneticActive then ''#00ffff''
                             else if isDoubleCollectorActive then ''#ffd700'' else getCoinColor);
            k = rngPos st;
            coinParticles =
              map (\<lambda>j. createParticle rnd (k + 3 * j) (body_centre coin) particleColor) [0..<particleCount]
        in st\<lparr> collectibles :=
                 (collectibles st)[i := (collectibles st ! i)\<lparr>collected := True, active := False\<rparr>],
               gameState := (gameState st)
                 \<lparr> score := score (gameState st) + coinValue,
                   coins := coins (gameState st) + coinsToAdd \<rparr>,
               totalCoinsCollected := newTotal,
               localStorage := setItem ''dogeTotalCoins'' (toString newTotal) (localStorage st),
               particles := particles st @ coinParticles,
               rngPos := k + 3 * particleCount \<rparr>)"

subsection \<open>The game loop\<close>

definition update_player :: "Player \<Rightarrow> Player" where
  "update_player prev =
     (let newVelocityY = vel_y (velocity prev) + GRAVITY;
          newPositionY = pos_y (position prev) + newVelocityY;
          groundY = GROUND_Y - height prev
      in if newPositionY \<ge> groundY then
           prev\<lparr> position := (position prev)\<lparr>pos_y := groundY\<rparr>,
                 velocity := (velocity prev)\<lparr>vel_y := 0\<rparr>,
                 isJumping := False,
                 isGrounded := True,
                 jumpCount := 0 \<rparr>
         else
           prev\<lparr> position := (position prev)\<lparr>pos_y := newPositionY\<rparr>,
                 velocity := (velocity prev)\<lparr>vel_y := newVelocityY\<rparr>,
                 isGrounded := False \<rparr>)"

record BoneOption =
  opt_x :: real
  opt_y :: real
  difficulty :: string

definition obstacleTypes :: "obstacle_kind list" where
  "obstacleTypes = [meteorite, rock, flag]"

definition bonePositionOptions :: "real \<Rightarrow> real \<Rightarrow> BoneOption list" where
  "bonePositionOptions nextX w =
     [ \<lparr> opt_x = nextX + w + 60, opt_y = GROUND_Y - 60, difficulty = ''easy'' \<rparr>,
       \<lparr> opt_x = nextX + w + 100, opt_y = GROUND_Y - 60, difficulty = ''easy'' \<rparr>,
       \<lparr> opt_x = nextX + w + 140, opt_y = GROUND_Y - 60, difficulty = ''easy'' \<rparr>,
       \<lparr> opt_x = nextX + w + 80, opt_y = GROUND_Y - 75, difficulty = ''medium'' \<rparr>,
       \<lparr> opt_x = nextX + w + 120, opt_y = GROUND_Y - 75, difficulty = ''medium'' \<rparr>,
       \<lparr> opt_x = nextX + w + 90, opt_y = GROUND_Y - 90, difficulty = ''hard'' \<rparr>,
       \<lparr> opt_x = nextX + w + 110, opt_y = GROUND_Y - 90, difficulty = ''hard'' \<rparr>,
       \<lparr> opt_x = nextX + w + 100, opt_y = GROUND_Y - 105, difficulty = ''expert'' \<rparr> ]"

definition difficultyWeights :: "real list" where
  "difficultyWeights = [0.45, 0.30, 0.15, 0.05, 0.03, 0.02, 0.00, 0.00]"

text \<open>
  The selection loop: \<open>select_loop ws random i cumulativeWeight\<close> is the loop at index
  \<open>i\<close> with the weights \<open>ws\<close> still ahead. It adds the weight, and stops with \<open>i\<close> as
  soon as the draw is at most the running sum; when the loop runs out, \<open>selectedIndex\<close>
  still has its initial 0.
\<close>

fun select_loop :: "real list \<Rightarrow> real \<Rightarrow> nat \<Rightarrow> real \<Rightarrow> nat" where
  "select_loop [] random i cumulativeWeight = 0"
| "select_loop (w # ws) random i cumulativeWeight =
     (if random \<le> cumulativeWeight + w then i
      else select_loop ws random (i + 1) (cumulativeWeight + w))"

definition select_index :: "real list \<Rightarrow> real \<Rightarrow> nat" where
  "select_index ws random = select_loop ws random 0 0"

text \<open>
  The spawn block of \<open>gameLoop\<close>. It reads \<open>worldOffset\<close> and \<open>nextObstacleX\<close> from the
  render \<open>c\<close> the loop closes over, draws the obstacle type and then the bone position,
  and appends one obstacle and one bone to the pending lists. Both array reads stay in
  range (lemmas \<open>obstacle_type_index_in_range\<close> and \<open>select_index_in_range\<close>).
\<close>

definition spawn :: "rng \<Rightarrow> hook \<Rightarrow> hook \<Rightarrow> hook" where
  "spawn rnd c st =
     (let currentWorldX = worldOffset c + CANVAS_WIDTH in
      if currentWorldX \<ge> nextObstacleX c then
        let k = rngPos st;
            type = obstacleTypes ! nat \<lfloor>Math_random rnd k * real (length obstacleTypes)\<rfloor>;
            w = 60;
            h = 60;
            newObstacle =
              \<lparr> position = \<lparr> pos_x = nextObstacleX c - worldOffset c, pos_y = GROUND_Y - h \<rparr>,
                velocity = \<lparr> vel_x = 0, vel_y = 0 \<rparr>,
                width = w, height = h, active = True,
                obstacle_type = type, rotation = 0, rotationSpeed = 0 \<rparr>;
            random = Math_random rnd (k + 1);
            selectedIndex = select_index difficultyWeights random;
            bonePosition = bonePositionOptions (nextObstacleX c) w ! selectedIndex;
            newBone =
              \<lparr> position = \<lparr> pos_x = opt_x bonePosition - worldOffset c, pos_y = opt_y bonePosition \<rparr>,
                velocity = \<lparr> vel_x = 0, vel_y = 0 \<rparr>,
                width = 65, height = 65, active = True,
                collected = False, animation = 0, coin_value = COIN_VALUE,
                magnetized = Some False \<rparr>
        in st\<lparr> obstacles := obstacles st @ [newObstacle],
               collectibles := collectibles st @ [newBone],
               nextObstacleX := nextObstacleX c + w + 200,
               rngPos := k + 2 \<rparr>
      else st)"

definition gameLoop :: "rng \<Rightarrow> hook \<Rightarrow> hook" where
  "gameLoop rnd c =
     (if \<not> isPlaying (gameState c) then c
      else
        let newSpeed = getGameSpeed (of_int (score (gameState c)));
            st1 = c\<lparr> currentSpeed := newSpeed,
                     worldOffset := worldOffset c + newSpeed,
                     player := update_player (player c) \<rparr>;
            st2 = spawn rnd c st1
        in st2\<lparr> obstacles :=
                  filter (\<lambda>obstacle. \<not> isOffScreen obstacle)
                    (map (\<lambda>obstacle. obstacle
                            \<lparr> position := (position obstacle)
                                \<lparr>pos_x := pos_x (position obstacle) - newSpeed\<rparr> \<rparr>)
                       (obstacles st2)),
                collectibles :=
                  filter (\<lambda>collectible. \<not> isOffScreen collectible \<and> active collectible)
                    (map (\<lambda>collectible. collectible
                            \<lparr> position := (position collectible)
                                \<lparr>pos_x := pos_x (position collectible) - newSpeed\<rparr>,
                              animation := animation collectible + 0.08 \<rparr>)
                       (collectibles st2)),
                particles := updateParticles (particles st2),
                gameState := (gameState st2)\<lparr>score := score (gameState st2) + 1\<rparr> \<rparr>)"

subsection \<open>The collision effect\<close>

text \<open>
  The effect runs on a render \<open>c\<close> while the game is playing: every obstacle that overlaps
  the player calls \<open>loseLife\<close>, then every uncollected active coin is tested, by distance
  between the centres when the magnet is running and by overlap otherwise.
\<close>

definition obstacle_step :: "rng \<Rightarrow> int \<Rightarrow> hook \<Rightarrow> Obstacle \<Rightarrow> hook \<Rightarrow> hook" where
  "obstacle_step rnd now c obstacle st =
     (if checkCollision (player c) obstacle then loseLife rnd now c st else st)"

definition coin_step :: "rng \<Rightarrow> int \<Rightarrow> hook \<Rightarrow> bool \<Rightarrow> nat \<Rightarrow> hook \<Rightarrow> hook" where
  "coin_step rnd now c isMagneticActive i st =
     (let coin = collectibles c ! i in
      if \<not> collected coin \<and> active coin then
        if isMagneticActive then
          let MAGNETIC_RANGE = 150;
              dx = (pos_x (position (player c)) + width (player c) / 2)
                   - (pos_x (position coin) + width coin / 2);
              dy = (pos_y (position (player c)) + height (player c) / 2)
                   - (pos_y (position coin) + height coin / 2);
              distance = sqrt (dx * dx + dy * dy)
          in if distance \<le> MAGNETIC_RANGE then collectCoin rnd now c i st else st
        else if checkCollision (player c) coin then collectCoin rnd now c i st
        else st
      else st)"

definition collision_effect :: "rng \<Rightarrow> int \<Rightarrow> hook \<Rightarrow> hook" where
  "collision_effect rnd now c =
     (if \<not> isPlaying (gameState c) then c
      else
        let st1 = fold (obstacle_step rnd now c) (obstacles c) c;
            isMagneticActive = power_running (activePowers c) ''magnetic_collector'' now
        in fold (coin_step rnd now c isMagneticActive) [0..<length (collectibles c)] st1)"

subsection \<open>Starting a game\<close>

text \<open>
  \<open>startGame()\<close> resets the cells of the session and then uses each of the three powers
  that has uses left. The test for uses reads the powers of the render \<open>c\<close> that
  \<open>startGame\<close> closes over; a power is found by its id, and the activation of one id
  leaves the powers of the other ids as they were.
\<close>

definition auto_activate :: "int \<Rightarrow> string \<Rightarrow> hook \<Rightarrow> hook \<Rightarrow> hook" where
  "auto_activate now powerId c st =
     (case find (\<lambda>p. power_id p = powerId) (availablePowers (shopState c)) of
        None \<Rightarrow> st
      | Some pw \<Rightarrow>
          (case usesRemaining pw of
             None \<Rightarrow> st
           | Some uses \<Rightarrow> if uses \<noteq> 0 \<and> uses > 0 then usePower now powerId st else st))"

definition startGame :: "int \<Rightarrow> hook \<Rightarrow> hook" where
  "startGame now c =
     (let st1 = c\<lparr> gameState := (gameState c)
                     \<lparr>isPlaying := True, gs_gameOver := False, score := 0, coins := 0\<rparr>,
                   player := (player c)
                     \<lparr> position := \<lparr> pos_x = 100, pos_y = GROUND_Y - 70 \<rparr>,
                       velocity := \<lparr> vel_x = 0, vel_y = 0 \<rparr>,
                       isGrounded := True,
                       jumpCount := 0 \<rparr>,
                   obstacles := [],
                   collectibles := [],
                   particles := [],
                   worldOffset := 0,
                   nextObstacleX := CANVAS_WIDTH + 100,
                   currentSpeed := BASE_SCROLL_SPEED \<rparr>;
          st2 = closeShop st1;
          st3 = st2\<lparr> lives := 1, maxLives := 1, isInvulnerable := False \<rparr>;
          st4 = auto_activate now ''double_collector'' c st3;
          st5 = auto_activate now ''magnetic_collector'' c st4
      in auto_activate now ''three_lives'' c st5)"

subsection \<open>First render and sessions\<close>

text \<open>
  The initial cells of the hook when every stored number reads as 0 (an empty store).
  The icons of the powers, emoji in the source, are written as words.
\<close>

definition initial_powers :: "PowerUp list" where
  "initial_powers =
     [ \<lparr> power_id = ''double_collector'', power_name = ''2x Collector'',
         description = ''Double the value of all collected bones for 30 seconds (2 uses)'',
         cost = 25, icon = ''zap'', owned = False, power_active = False,
         duration = Some 30, usesRemaining = Some 0, maxUses = Some 2 \<rparr>,
       \<lparr> power_id = ''magnetic_collector'', power_name = ''Magnetic Collector'',
         description = ''Automatically collect all bones at distance for the entire game (2 uses)'',
         cost = 50, icon = ''magnet'', owned = False, power_active = False,
         duration = Some 999, usesRemaining = Some 0, maxUses = Some 2 \<rparr>,
       \<lparr> power_id = ''three_lives'', power_name = ''3 Lives'',
         description = ''Get 3 lives instead of just one! Survive 2 additional collisions (2 uses)'',
         cost = 100, icon = ''shield'', owned = False, power_active = False,
         duration = Some 999, usesRemaining = Some 0, maxUses = Some 2 \<rparr> ]"

definition initial_player :: Player where
  "initial_player =
     \<lparr> position = \<lparr> pos_x = 100, pos_y = GROUND_Y - 60 \<rparr>,
       velocity = \<lparr> vel_x = 0, vel_y = 0 \<rparr>,
       width = 60, height = 70, active = True,
       isJumping = False, isGrounded = True, jumpCount = 0, maxJumps = 1 \<rparr>"

definition initial_hook :: hook where
  "initial_hook =
     \<lparr> gameState = \<lparr> isPlaying = False, score = 0, coins = 0, highScore = 0, highCoins = 0,
                     gs_gameOver = False, level = 1 \<rparr>,
       totalCoinsCollected = 0,
       dogevisions = 0,
       lives = 1,
       maxLives = 1,
       isInvulnerable = False,
       shopState = \<lparr> isOpen = False, availablePowers = initial_powers \<rparr>,
       activePowers = Map.empty,
       player = initial_player,
       obstacles = [],
       collectibles = [],
       particles = [],
       worldOffset = 0,
       nextObstacleX = CANVAS_WIDTH + 100,
       currentSpeed = BASE_SCROLL_SPEED,
       localStorage = Map.empty,
       timeouts = [],
       rngPos = 0 \<rparr>"

text \<open>
  A session is a sequence of events, each run on the state the previous one left: a frame
  of the game loop, a jump, a pass of the collision effect, or the firing of due
  time-outs.
\<close>

datatype event = Frame | Jump | Collision int | Timeouts int

fun step :: "rng \<Rightarrow> event \<Rightarrow> hook \<Rightarrow> hook" where
  "step rnd Frame s = gameLoop rnd s"
| "step rnd Jump s = jump rnd s"
| "step rnd (Collision now) s = collision_effect rnd now s"
| "step rnd (Timeouts now) s = run_timeouts now s"

fun session :: "rng \<Rightarrow> event list \<Rightarrow> hook \<Rightarrow> hook" where
  "session rnd [] s = s"
| "session rnd (e # es) s = session rnd es (step rnd e s)"

text \<open>
  What an event carries over and what it creates. A frame of the playing game moves the
  obstacles and bones it finds and prunes them; every other event leaves the lists at
  their length. What an event creates is what the list it returns holds beyond the ones
  carried over. A created obstacle is recorded by its world-space x: its screen x plus
  the world offset of the state the event returns.
\<close>

definition scroll_obstacle :: "real \<Rightarrow> Obstacle \<Rightarrow> Obstacle" where
  "scroll_obstacle v obstacle =
     obstacle\<lparr>position := (position obstacle)\<lparr>pos_x := pos_x (position obstacle) - v\<rparr>\<rparr>"

definition scroll_collectible :: "real \<Rightarrow> Collectible \<Rightarrow> Collectible" where
  "scroll_collectible v collectible =
     collectible\<lparr> position := (position collectible)\<lparr>pos_x := pos_x (position collectible) - v\<rparr>,
                  animation := animation collectible + 0.08 \<rparr>"

definition carried_obstacles :: "event \<Rightarrow> hook \<Rightarrow> Obstacle list" where
  "carried_obstacles e s =
     (if e = Frame \<and> isPlaying (gameState s) then
        filter (\<lambda>obstacle. \<not> isOffScreen obstacle)
          (map (scroll_obstacle (getGameSpeed (of_int (score (gameState s))))) (obstacles s))
      else obstacles s)"

definition carried_collectibles :: "event \<Rightarrow> hook \<Rightarrow> Collectible list" where
  "carried_collectibles e s =
     (if e = Frame \<and> isPlaying (gameState s) then
        filter (\<lambda>collectible. \<not> isOffScreen collectible \<and> active collectible)
          (map (scroll_collectible (getGameSpeed (of_int (score (gameState s))))) (collectibles s))
      else collectibles s)"

definition new_obstacles :: "rng \<Rightarrow> event \<Rightarrow> hook \<Rightarrow> Obstacle list" where
  "new_obstacles rnd e s = drop (length (carried_obstacles e s)) (obstacles (step rnd e s))"

definition new_collectibles :: "rng \<Rightarrow> event \<Rightarrow> hook \<Rightarrow> Collectible list" where
  "new_collectibles rnd e s = drop (length (carried_collectibles e s)) (collectibles (step rnd e s))"

fun created_obstacles :: "rng \<Rightarrow> event list \<Rightarrow> hook \<Rightarrow> real list" where
  "created_obstacles rnd [] s = []"
| "created_obstacles rnd (e # es) s =
     map (\<lambda>obstacle. pos_x (position obstacle) + worldOffset (step rnd e s)) (new_obstacles rnd e s)
     @ created_obstacles rnd es (step rnd e s)"

fun created_collectibles :: "rng \<Rightarrow> event list \<Rightarrow> hook \<Rightarrow> Collectible list" where
  "created_collectibles rnd [] s = []"
| "created_collectibles rnd (e # es) s =
     new_collectibles rnd e s @ created_collectibles rnd es (step rnd e s)"

subsection \<open>Names for expressions of the code, and example states\<close>

text \<open>
  The spawn condition of the game loop, the update \<open>collectCoin\<close> applies to a coin, and
  the test the collision effect applies to an uncollected active coin (distance of the
  centres under the magnet, overlap otherwise), each under a name of its own.
\<close>

definition spawn_due :: "hook \<Rightarrow> bool" where
  "spawn_due c \<longleftrightarrow> worldOffset c + CANVAS_WIDTH \<ge> nextObstacleX c"

definition mark_collected :: "Collectible \<Rightarrow> Collectible" where
  "mark_collected coin = coin\<lparr>collected := True, active := False\<rparr>"

definition in_reach :: "hook \<Rightarrow> bool \<Rightarrow> nat \<Rightarrow> bool" where
  "in_reach c isMagneticActive i \<longleftrightarrow>
     (if isMagneticActive then
        sqrt (((pos_x (position (player c)) + width (player c) / 2)
                 - (pos_x (position (collectibles c ! i)) + width (collectibles c ! i) / 2))
              * ((pos_x (position (player c)) + width (player c) / 2)
                 - (pos_x (position (collectibles c ! i)) + width (collectibles c ! i) / 2))
              + ((pos_y (position (player c)) + height (player c) / 2)
                 - (pos_y (position (collectibles c ! i)) + height (collectibles c ! i) / 2))
              * ((pos_y (position (player c)) + height (player c) / 2)
                 - (pos_y (position (collectibles c ! i)) + height (collectibles c ! i) / 2))) \<le> 150
      else checkCollision (player c) (collectibles c ! i))"

text \<open>
  States for the scenarios: the first render with the game playing; a bone as the spawn
  block builds it, at screen x \<open>cx\<close> and at the height that puts its centre level with
  the centre of the standing player; the playing state with that bone and a running magnet.
\<close>

definition playing_hook :: hook where
  "playing_hook = initial_hook\<lparr>gameState := (gameState initial_hook)\<lparr>isPlaying := True\<rparr>\<rparr>"

definition example_coin :: "real \<Rightarrow> Collectible" where
  "example_coin cx =
     \<lparr> position = \<lparr> pos_x = cx, pos_y = 442.5 \<rparr>,
       velocity = \<lparr> vel_x = 0, vel_y = 0 \<rparr>,
       width = 65, height = 65, active = True,
       collected = False, animation = 0, coin_value = COIN_VALUE,
       magnetized = Some False \<rparr>"

definition magnet_hook :: "real \<Rightarrow> hook" where
  "magnet_hook cx =
     playing_hook\<lparr> collectibles := [example_coin cx],
                   activePowers := [''magnetic_collector'' \<mapsto> 1000000] \<rparr>"

section \<open>Currency exchange\<close>

lemma floor_div_1000: "Math_floor (of_int T / of_int (1000 :: int)) = T div 1000"
  unfolding Math_floor_def by (simp only: floor_divide_of_int_eq)

lemma floor_real_div_1000: "\<lfloor>real_of_int T / 1000\<rfloor> = T div 1000"
  using floor_div_1000 [of T] by (simp add: Math_floor_def)

lemma exchange_units:
  "exchangeForDogevision s =
     (if totalCoinsCollected s div 1000 > 0 then
        (\<lparr> success = True, dogevisionsAdded = totalCoinsCollected s div 1000 * 100,
            osSpent = totalCoinsCollected s div 1000 * 1000 \<rparr>,
         s\<lparr> totalCoinsCollected := totalCoinsCollected s - totalCoinsCollected s div 1000 * 1000,
            dogevisions := dogevisions s + totalCoinsCollected s div 1000 * 100,
            localStorage :=
              setItem ''dogeDogevisions'' (toString (dogevisions s + totalCoinsCollected s div 1000 * 100))
                (setItem ''dogeTotalCoins''
                   (toString (totalCoinsCollected s - totalCoinsCollected s div 1000 * 1000))
                   (localStorage s)) \<rparr>)
      else (\<lparr> success = False, dogevisionsAdded = 0, osSpent = 0 \<rparr>, s))"
  unfolding exchangeForDogevision_def Let_def floor_div_1000 by simp

text \<open>
  Claim C1, as the code has it. With \<open>units = floor(T / 1000)\<close> for the balance \<open>T\<close>:
  when \<open>units\<close> is at most 0 (every balance below 1000, a negative one included) the
  exchange returns the failure result with zero amounts and the state, the store
  included, is unchanged; when \<open>units\<close> is positive it returns success with
  \<open>osSpent = units * 1000\<close> and \<open>dogevisionsAdded = units * 100\<close>, the new balance is
  \<open>T - units * 1000\<close>, the premium balance grows by \<open>units * 100\<close>, and both new
  balances are written to the store.
\<close>

theorem exchange_amounts:
  "let T = totalCoinsCollected s;
       units = \<lfloor>real_of_int T / 1000\<rfloor>;
       r = fst (exchangeForDogevision s);
       s' = snd (exchangeForDogevision s)
   in (units \<le> 0 \<longrightarrow> r = \<lparr> success = False, dogevisionsAdded = 0, osSpent = 0 \<rparr> \<and> s' = s) \<and>
      (units > 0 \<longrightarrow>
         success r \<and> osSpent r = units * 1000 \<and> dogevisionsAdded r = units * 100 \<and>
         totalCoinsCollected s' = T - units * 1000 \<and>
         dogevisions s' = dogevisions s + units * 100 \<and>
         localStorage s' ''dogeTotalCoins'' = Some (toString (T - units * 1000)) \<and>
         localStorage s' ''dogeDogevisions'' = Some (toString (dogevisions s + units * 100)))"
  unfolding Let_def floor_real_div_1000 exchange_units by (simp add: setItem_def)

text \<open>
  Scenarios A and B: from a balance of 0 the exchange fails and changes nothing; from a
  balance of 2500 it succeeds, spends 2000, credits 200 and leaves 500.
\<close>

theorem exchange_amounts_witness:
  "\<lfloor>real_of_int (totalCoinsCollected initial_hook) / 1000\<rfloor> \<le> 0 \<and>
   exchangeForDogevision initial_hook =
     (\<lparr> success = False, dogevisionsAdded = 0, osSpent = 0 \<rparr>, initial_hook) \<and>
   \<lfloor>real_of_int (totalCoinsCollected (initial_hook\<lparr>totalCoinsCollected := 2500\<rparr>)) / 1000\<rfloor> > 0 \<and>
   fst (exchangeForDogevision (initial_hook\<lparr>totalCoinsCollected := 2500\<rparr>)) =
     \<lparr> success = True, dogevisionsAdded = 200, osSpent = 2000 \<rparr> \<and>
   totalCoinsCollected (snd (exchangeForDogevision (initial_hook\<lparr>totalCoinsCollected := 2500\<rparr>))) = 500 \<and>
   dogevisions (snd (exchangeForDogevision (initial_hook\<lparr>totalCoinsCollected := 2500\<rparr>))) = 200"
  using exchange_amounts [of initial_hook]
    exchange_amounts [of "initial_hook\<lparr>totalCoinsCollected := 2500\<rparr>"]
  by (simp add: Let_def initial_hook_def prod_eq_iff)

text \<open>
  The claim as written splits on \<open>units = 0\<close>. A balance of -1500 gives
  \<open>units = floor(-1.5) = -2\<close>, which is not 0, and the exchange still fails and changes
  nothing: the guard of the code is \<open>maxExchangeable > 0\<close>.
\<close>

theorem exchange_negative_balance_counterexample:
  "\<lfloor>real_of_int (- 1500) / 1000\<rfloor> = (- 2 :: int) \<and>
   exchangeForDogevision (initial_hook\<lparr>totalCoinsCollected := - 1500\<rparr>) =
     (\<lparr> success = False, dogevisionsAdded = 0, osSpent = 0 \<rparr>,
      initial_hook\<lparr>totalCoinsCollected := - 1500\<rparr>)"
  by (simp add: exchange_units floor_real_div_1000)

section \<open>Array reads stay in range\<close>

lemma Math_random_range: "0 \<le> Math_random rnd k \<and> Math_random rnd k < 1"
  using Rep_rand01 [of "rnd k"] by (simp add: Math_random_def)

lemma scaled_draw_index:
  assumes "0 < n"
  shows "nat \<lfloor>Math_random rnd k * real n\<rfloor> < n"
proof -
  have "Math_random rnd k * real n < 1 * real n"
    using Math_random_range [of rnd k] assms by (intro mult_strict_right_mono) simp_all
  then have "\<lfloor>Math_random rnd k * real n\<rfloor> < int n"
    by (simp add: floor_less_iff)
  then show ?thesis
    using assms by linarith
qed

lemma color_index_in_range:
  "nat \<lfloor>Math_random rnd k * real (length particle_colors)\<rfloor> < length particle_colors"
  by (rule scaled_draw_index) (simp add: particle_colors_def)

lemma obstacle_type_index_in_range:
  "nat \<lfloor>Math_random rnd k * real (length obstacleTypes)\<rfloor> < length obstacleTypes"
  by (rule scaled_draw_index) (simp add: obstacleTypes_def)

lemma select_loop_bound: "select_loop ws r i cum = 0 \<or> select_loop ws r i cum < i + length ws"
proof (induction ws arbitrary: i cum)
  case Nil
  show ?case by simp
next
  case (Cons w ws)
  show ?case
    using Cons.IH [of "i + 1" "cum + w"] by auto
qed

lemma select_index_in_range:
  "select_index difficultyWeights r < length (bonePositionOptions nextX w)"
  using select_loop_bound [of difficultyWeights r 0 0]
  by (auto simp: select_index_def difficultyWeights_def bonePositionOptions_def)

section \<open>Weighted selection of the bone position\<close>

text \<open>
  Claim C4. For every draw \<open>r\<close> (so in particular for every draw of the unit interval),
  the index the cumulative-weight loop selects over the eight weights 0.45, 0.30, 0.15,
  0.05, 0.03, 0.02, 0, 0 is a valid index of the eight-entry table of bone positions, it
  is never 6 or 7, and the weight of the selected tier is never 0. A tier of weight 0
  leaves the running sum as it was, so a draw that passes it had already passed the tier
  before.
\<close>

theorem weighted_selection:
  "select_index difficultyWeights r < length (bonePositionOptions nextX w) \<and>
   length (bonePositionOptions nextX w) = 8 \<and>
   select_index difficultyWeights r \<noteq> 6 \<and>
   select_index difficultyWeights r \<noteq> 7 \<and>
   difficultyWeights ! select_index difficultyWeights r \<noteq> 0"
  by (simp add: select_index_def difficultyWeights_def bonePositionOptions_def)

section \<open>Jump\<close>

text \<open>
  Claim C6. When the player is grounded with \<open>jumpCount = 0\<close>, \<open>jump\<close> sets
  \<open>isGrounded = false\<close> and \<open>jumpCount = 1\<close> and sets the vertical velocity to
  \<open>JUMP_FORCE = -11\<close> (horizontal velocity and position stay); in every other player
  state \<open>jump\<close> changes nothing at all.
\<close>

theorem jump_effect:
  "(isGrounded (player s) \<and> jumpCount (player s) = 0 \<longrightarrow>
      \<not> isGrounded (player (jump rnd s)) \<and>
      jumpCount (player (jump rnd s)) = 1 \<and>
      vel_y (velocity (player (jump rnd s))) = JUMP_FORCE \<and> JUMP_FORCE = - 11 \<and>
      vel_x (velocity (player (jump rnd s))) = vel_x (velocity (player s)) \<and>
      position (player (jump rnd s)) = position (player s)) \<and>
   (\<not> (isGrounded (player s) \<and> jumpCount (player s) = 0) \<longrightarrow> jump rnd s = s)"
  by (simp add: jump_def Let_def JUMP_FORCE_def)

text \<open>
  On the first render the player is grounded and jumps; the jumping player is airborne,
  and a second jump leaves the state as it is.
\<close>

theorem jump_effect_witness:
  "isGrounded (player initial_hook) \<and> jumpCount (player initial_hook) = 0 \<and>
   \<not> isGrounded (player (jump (\<lambda>_. draw_half) initial_hook)) \<and>
   jumpCount (player (jump (\<lambda>_. draw_half) initial_hook)) = 1 \<and>
   vel_y (velocity (player (jump (\<lambda>_. draw_half) initial_hook))) = - 11 \<and>
   \<not> (isGrounded (player (jump (\<lambda>_. draw_half) initial_hook)) \<and>
      jumpCount (player (jump (\<lambda>_. draw_half) initial_hook)) = 0) \<and>
   jump (\<lambda>_. draw_half) (jump (\<lambda>_. draw_half) initial_hook) = jump (\<lambda>_. draw_half) initial_hook"
  using jump_effect [of initial_hook "\<lambda>_. draw_half"]
    jump_effect [of "jump (\<lambda>_. draw_half) initial_hook" "\<lambda>_. draw_half"]
  by (simp add: initial_hook_def initial_player_def)

section \<open>Scroll speed\<close>

text \<open>
  Claim C7. For every score (non-negative or not) the scroll speed is
  \<open>min (4 + score * 0.003) 16\<close>, and at score 2000 it is 10. The arithmetic is that
  of the real numbers.
\<close>

theorem speed_ramp:
  "getGameSpeed sc = min (BASE_SCROLL_SPEED + sc * SPEED_INCREASE_RATE) MAX_SCROLL_SPEED \<and>
   BASE_SCROLL_SPEED = 4 \<and> SPEED_INCREASE_RATE = 0.003 \<and> MAX_SCROLL_SPEED = 16 \<and>
   getGameSpeed sc = min (4 + sc * 0.003) 16 \<and>
   getGameSpeed 2000 = 10"
  by (simp add: getGameSpeed_def BASE_SCROLL_SPEED_def MAX_SCROLL_SPEED_def SPEED_INCREASE_RATE_def)

section \<open>Powers without uses, purchases without funds\<close>

text \<open>
  Claim C8. \<open>usePower(id)\<close> returns the state unchanged when the power with that id has
  no \<open>usesRemaining\<close> field or has \<open>usesRemaining \<le> 0\<close> (and also when no power has
  that id); \<open>buyPower(id)\<close> returns the state unchanged when the balance is strictly
  below the cost of the power (and also when no power has that id). The whole state is
  unchanged: powers, active powers, balances and the store. Both are total functions:
  neither can raise.
\<close>

theorem power_noop:
  "((\<forall>pw. find (\<lambda>p. power_id p = powerId) (availablePowers (shopState s)) = Some pw \<longrightarrow>
        (case usesRemaining pw of None \<Rightarrow> True | Some uses \<Rightarrow> uses \<le> 0))
      \<longrightarrow> usePower now powerId s = s) \<and>
   ((\<forall>pw. find (\<lambda>p. power_id p = powerId) (availablePowers (shopState s)) = Some pw \<longrightarrow>
        totalCoinsCollected s < cost pw)
      \<longrightarrow> buyPower powerId s = s)"
  by (auto simp: usePower_def buyPower_def split: option.splits)

text \<open>
  On the first render with an empty store the 2x collector has 0 uses and the balance 0
  is below its cost of 25: using it and buying it both leave the state as it is.
\<close>

theorem power_noop_witness:
  "find (\<lambda>p. power_id p = ''double_collector'') (availablePowers (shopState initial_hook))
     = Some (hd initial_powers) \<and>
   usesRemaining (hd initial_powers) = Some 0 \<and>
   totalCoinsCollected initial_hook < cost (hd initial_powers) \<and>
   usePower 1000 ''double_collector'' initial_hook = initial_hook \<and>
   buyPower ''double_collector'' initial_hook = initial_hook"
  using power_noop [of "''double_collector''" initial_hook 1000]
  by (simp add: initial_hook_def initial_powers_def)

section \<open>Reading numbers from the store\<close>

lemma parseInt_NaN:
  assumes "case dropWhile isWhiteSpace v of [] \<Rightarrow> True
           | c # cs \<Rightarrow> c \<noteq> CHR ''+'' \<and> c \<noteq> CHR ''-'' \<and> radixDigit 10 c = None"
  shows "parseInt v = NaN"
proof (cases "dropWhile isWhiteSpace v")
  case Nil
  show ?thesis unfolding parseInt_def Let_def Nil by simp
next
  case (Cons c cs)
  with assms have c: "c \<noteq> CHR ''+''" "c \<noteq> CHR ''-''" "radixDigit 10 c = None" by simp_all
  have c0: "c \<noteq> CHR ''0''"
    using c(3) by (auto simp: radixDigit_def digitValue_def)
  show ?thesis
    unfolding parseInt_def Let_def Cons using c c0 by simp
qed

lemma parseInt_0: "parseInt ''0'' = Num 0"
  by (simp add: parseInt_def isWhiteSpace_def radixDigit_def digitValue_def)

lemma parseInt_strips_blanks:
  "parseInt [CHR 0xA0, CHR ''5''] = Num 5"
  "parseInt '' 42'' = Num 42"
  by (simp_all add: parseInt_def isWhiteSpace_def radixDigit_def digitValue_def)

lemma numeric_reads_stored: "(k, read) \<in> set numeric_reads \<Longrightarrow> read store = stored_number store k"
  by (auto simp: numeric_reads_def initial_highScore_def initial_highCoins_def
        initial_totalCoinsCollected_def initial_dogevisions_def initial_doubleCollectorUses_def
        initial_magneticCollectorUses_def initial_threeLivesUses_def)

lemma stored_number_cases:
  "(store k = None \<or> store k = Some [] \<longrightarrow> stored_number store k = Num 0) \<and>
   (\<forall>v. store k = Some v \<and> v \<noteq> [] \<and>
        (case dropWhile isWhiteSpace v of [] \<Rightarrow> True
         | c # cs \<Rightarrow> c \<noteq> CHR ''+'' \<and> c \<noteq> CHR ''-'' \<and> radixDigit 10 c = None)
      \<longrightarrow> stored_number store k = NaN)"
  by (auto simp: stored_number_def getItem_or_0_def parseInt_0 parseInt_NaN)

text \<open>
  Claim C9, as the code has it. Each of the seven numeric reads (high score, high coins,
  total currency, premium currency and the uses of the three powers), and the expression
  \<open>parseInt(localStorage.getItem(key) || '0')\<close> at any key, yields 0 when the key is
  absent or the stored string is empty. For a non-empty stored string that is all white
  space, or whose first character after the white space is neither a sign nor a decimal
  digit, it yields \<open>NaN\<close>, not 0: the fallback \<open>|| '0'\<close> only replaces a missing or
  empty string. The read is a total function, so nothing is raised.
\<close>

theorem stored_number_reads:
  "(\<forall>(k, read) \<in> set numeric_reads.
      (store k = None \<or> store k = Some [] \<longrightarrow> read store = Num 0) \<and>
      (\<forall>v. store k = Some v \<and> v \<noteq> [] \<and>
           (case dropWhile isWhiteSpace v of [] \<Rightarrow> True
            | c # cs \<Rightarrow> c \<noteq> CHR ''+'' \<and> c \<noteq> CHR ''-'' \<and> radixDigit 10 c = None)
         \<longrightarrow> read store = NaN)) \<and>
   (store key = None \<or> store key = Some [] \<longrightarrow> stored_number store key = Num 0) \<and>
   (\<forall>v. store key = Some v \<and> v \<noteq> [] \<and>
        (case dropWhile isWhiteSpace v of [] \<Rightarrow> True
         | c # cs \<Rightarrow> c \<noteq> CHR ''+'' \<and> c \<noteq> CHR ''-'' \<and> radixDigit 10 c = None)
      \<longrightarrow> stored_number store key = NaN)"
proof -
  have "\<forall>(k, read) \<in> set numeric_reads.
      (store k = None \<or> store k = Some [] \<longrightarrow> read store = Num 0) \<and>
      (\<forall>v. store k = Some v \<and> v \<noteq> [] \<and>
           (case dropWhile isWhiteSpace v of [] \<Rightarrow> True
            | c # cs \<Rightarrow> c \<noteq> CHR ''+'' \<and> c \<noteq> CHR ''-'' \<and> radixDigit 10 c = None)
         \<longrightarrow> read store = NaN)"
  proof (intro ballI, clarify)
    fix k read
    assume "(k, read) \<in> set numeric_reads"
    then have "read store = stored_number store k"
      by (rule numeric_reads_stored)
    then show "(store k = None \<or> store k = Some [] \<longrightarrow> read store = Num 0) \<and>
      (\<forall>v. store k = Some v \<and> v \<noteq> [] \<and>
           (case dropWhile isWhiteSpace v of [] \<Rightarrow> True
            | c # cs \<Rightarrow> c \<noteq> CHR ''+'' \<and> c \<noteq> CHR ''-'' \<and> radixDigit 10 c = None)
         \<longrightarrow> read store = NaN)"
      using stored_number_cases [of store k] by simp
  qed
  with stored_number_cases [of store key] show ?thesis by blast
qed

text \<open>
  With an empty store the total currency and the high score read as 0; with \<open>abc\<close>
  stored the total currency reads as \<open>NaN\<close>; with two spaces stored the high score reads
  as \<open>NaN\<close>.
\<close>

theorem stored_number_reads_witness:
  "(''dogeTotalCoins'', initial_totalCoinsCollected) \<in> set numeric_reads \<and>
   initial_totalCoinsCollected Map.empty = Num 0 \<and>
   initial_totalCoinsCollected (Map.empty(''dogeTotalCoins'' \<mapsto> ''abc'')) = NaN \<and>
   stored_number Map.empty ''dogeHighScore'' = Num 0 \<and>
   stored_number (Map.empty(''dogeHighScore'' \<mapsto> ''  '')) ''dogeHighScore'' = NaN"
proof -
  have member: "(''dogeTotalCoins'', initial_totalCoinsCollected) \<in> set numeric_reads"
    by (simp add: numeric_reads_def)
  note empty = stored_number_reads [of Map.empty "''dogeHighScore''"]
  note abc = stored_number_reads [of "Map.empty(''dogeTotalCoins'' \<mapsto> ''abc'')" "''dogeHighScore''"]
  note blank = stored_number_reads [of "Map.empty(''dogeHighScore'' \<mapsto> ''  '')" "''dogeHighScore''"]
  have a: "initial_totalCoinsCollected Map.empty = Num 0"
    using empty member by fastforce
  have b: "initial_totalCoinsCollected (Map.empty(''dogeTotalCoins'' \<mapsto> ''abc'')) = NaN"
  proof -
    have "(case dropWhile isWhiteSpace ''abc'' of [] \<Rightarrow> True
         | c # cs \<Rightarrow> c \<noteq> CHR ''+'' \<and> c \<noteq> CHR ''-'' \<and> radixDigit 10 c = None)"
      by (simp add: isWhiteSpace_def radixDigit_def digitValue_def)
    with abc member show ?thesis by fastforce
  qed
  have c: "stored_number Map.empty ''dogeHighScore'' = Num 0"
    using empty by simp
  have d: "stored_number (Map.empty(''dogeHighScore'' \<mapsto> ''  '')) ''dogeHighScore'' = NaN"
  proof -
    have "(case dropWhile isWhiteSpace ''  '' of [] \<Rightarrow> True
         | c # cs \<Rightarrow> c \<noteq> CHR ''+'' \<and> c \<noteq> CHR ''-'' \<and> radixDigit 10 c = None)"
      by (simp add: isWhiteSpace_def)
    with blank show ?thesis by simp
  qed
  from member a b c d show ?thesis by blast
qed

text \<open>
  The claim as written says a malformed stored string reads as 0. With \<open>abc\<close> stored as
  the high score, the initial high score is \<open>NaN\<close>.
\<close>

theorem malformed_read_counterexample:
  "initial_highScore (Map.empty(''dogeHighScore'' \<mapsto> ''abc'')) = NaN \<and>
   initial_highScore (Map.empty(''dogeHighScore'' \<mapsto> ''abc'')) \<noteq> Num 0"
  by (simp add: initial_highScore_def stored_number_def getItem_or_0_def parseInt_def
        isWhiteSpace_def radixDigit_def digitValue_def)

section \<open>Losing a life\<close>

lemma gameOver_fields:
  "lives (gameOver rnd c st) = 1"
  "maxLives (gameOver rnd c st) = 1"
  "\<not> isInvulnerable (gameOver rnd c st)"
  "\<not> isPlaying (gameState (gameOver rnd c st))"
  "gs_gameOver (gameState (gameOver rnd c st))"
  "activePowers (gameOver rnd c st) = Map.empty"
  "highScore (gameState (gameOver rnd c st)) = max (score (gameState st)) (highScore (gameState st))"
  "highCoins (gameState (gameOver rnd c st)) = max (coins (gameState st)) (highCoins (gameState st))"
  by (simp_all add: gameOver_def Let_def)

text \<open>
  Claim C2. \<open>loseLife\<close> called from a render \<open>c\<close> on the pending state \<open>st\<close>:
  while \<open>c\<close> is invulnerable it leaves \<open>st\<close> as it is; when \<open>c\<close> is not invulnerable and
  has more than one life, the lives become one less than those of \<open>c\<close>, invulnerability
  is set, a time-out due 2000 ms later is queued and the game state stays; when \<open>c\<close>
  is not invulnerable and has exactly one life, it is \<open>gameOver\<close>, which leaves one life,
  stops play and sets the game-over flag. Lives that were not negative are not negative
  afterwards. With no older time-out pending, the player hit at \<open>now\<close> is invulnerable
  at time \<open>t\<close> exactly when \<open>t < now + 2000\<close>.
\<close>

theorem loseLife_cases:
  "(isInvulnerable c \<longrightarrow> loseLife rnd now c st = st) \<and>
   (\<not> isInvulnerable c \<and> lives c > 1 \<longrightarrow>
      lives (loseLife rnd now c st) = lives c - 1 \<and>
      isInvulnerable (loseLife rnd now c st) \<and>
      timeouts (loseLife rnd now c st) = timeouts st @ [now + 2000] \<and>
      gameState (loseLife rnd now c st) = gameState st) \<and>
   (\<not> isInvulnerable c \<and> lives c = 1 \<longrightarrow>
      loseLife rnd now c st = gameOver rnd c st \<and>
      lives (loseLife rnd now c st) = 1 \<and>
      \<not> isPlaying (gameState (loseLife rnd now c st)) \<and>
      gs_gameOver (gameState (loseLife rnd now c st))) \<and>
   (0 \<le> lives c \<longrightarrow> 0 \<le> lives (loseLife rnd now c c)) \<and>
   (\<not> isInvulnerable c \<and> lives c > 1 \<and> timeouts c = [] \<longrightarrow>
      (\<forall>t. isInvulnerable (run_timeouts t (loseLife rnd now c c)) \<longleftrightarrow> t < now + 2000))"
  by (auto simp: loseLife_def Let_def gameOver_fields run_timeouts_def)

text \<open>
  Scenario D, from three lives: a hit at time 0 leaves two lives and sets invulnerability;
  a hit at time 1000 changes nothing; the player is still invulnerable at 1999 and no
  longer at 2000; a hit at time 2500 leaves one life. From one life a hit is game over.
\<close>

theorem loseLife_cases_witness:
  "\<not> isInvulnerable (initial_hook\<lparr>lives := 3, maxLives := 3\<rparr>) \<and>
   lives (initial_hook\<lparr>lives := 3, maxLives := 3\<rparr>) > 1 \<and>
   timeouts (initial_hook\<lparr>lives := 3, maxLives := 3\<rparr>) = [] \<and>
   lives (loseLife (\<lambda>_. draw_half) 0 (initial_hook\<lparr>lives := 3, maxLives := 3\<rparr>)
            (initial_hook\<lparr>lives := 3, maxLives := 3\<rparr>)) = 2 \<and>
   isInvulnerable (loseLife (\<lambda>_. draw_half) 0 (initial_hook\<lparr>lives := 3, maxLives := 3\<rparr>)
            (initial_hook\<lparr>lives := 3, maxLives := 3\<rparr>)) \<and>
   loseLife (\<lambda>_. draw_half) 1000
       (loseLife (\<lambda>_. draw_half) 0 (initial_hook\<lparr>lives := 3, maxLives := 3\<rparr>)
            (initial_hook\<lparr>lives := 3, maxLives := 3\<rparr>))
       (loseLife (\<lambda>_. draw_half) 0 (initial_hook\<lparr>lives := 3, maxLives := 3\<rparr>)
            (initial_hook\<lparr>lives := 3, maxLives := 3\<rparr>))
     = loseLife (\<lambda>_. draw_half) 0 (initial_hook\<lparr>lives := 3, maxLives := 3\<rparr>)
            (initial_hook\<lparr>lives := 3, maxLives := 3\<rparr>) \<and>
   isInvulnerable (run_timeouts 1999
       (loseLife (\<lambda>_. draw_half) 0 (initial_hook\<lparr>lives := 3, maxLives := 3\<rparr>)
            (initial_hook\<lparr>lives := 3, maxLives := 3\<rparr>))) \<and>
   \<not> isInvulnerable (run_timeouts 2000
       (loseLife (\<lambda>_. draw_half) 0 (initial_hook\<lparr>lives := 3, maxLives := 3\<rparr>)
            (initial_hook\<lparr>lives := 3, maxLives := 3\<rparr>))) \<and>
   lives (loseLife (\<lambda>_. draw_half) 2500
       (run_timeouts 2000
          (loseLife (\<lambda>_. draw_half) 0 (initial_hook\<lparr>lives := 3, maxLives := 3\<rparr>)
            (initial_hook\<lparr>lives := 3, maxLives := 3\<rparr>)))
       (run_timeouts 2000
          (loseLife (\<lambda>_. draw_half) 0 (initial_hook\<lparr>lives := 3, maxLives := 3\<rparr>)
            (initial_hook\<lparr>lives := 3, maxLives := 3\<rparr>)))) = 1 \<and>
   \<not> isInvulnerable initial_hook \<and> lives initial_hook = 1 \<and>
   gs_gameOver (gameState (loseLife (\<lambda>_. draw_half) 0 initial_hook initial_hook)) \<and>
   lives (loseLife (\<lambda>_. draw_half) 0 initial_hook initial_hook) = 1"
proof -
  let ?r = "\<lambda>_::nat. draw_half"
  let ?s0 = "initial_hook\<lparr>lives := 3, maxLives := 3\<rparr>"
  let ?s1 = "loseLife ?r 0 ?s0 ?s0"
  let ?s3 = "run_timeouts 2000 ?s1"
  have s0: "\<not> isInvulnerable ?s0" "lives ?s0 = 3" "timeouts ?s0 = []"
    by (simp_all add: initial_hook_def)
  have i0: "\<not> isInvulnerable initial_hook" "lives initial_hook = 1"
    by (simp_all add: initial_hook_def)
  note first = loseLife_cases [of ?s0 ?r 0 ?s0]
  have s1: "lives ?s1 = 2" "isInvulnerable ?s1"
    using first s0 by simp_all
  note second = loseLife_cases [of ?s1 ?r 1000 ?s1]
  have s3: "\<not> isInvulnerable ?s3" "lives ?s3 = 2"
    using first s0 s1 by (simp_all add: run_timeouts_def)
  note third = loseLife_cases [of ?s3 ?r 2500 ?s3]
  note last = loseLife_cases [of initial_hook ?r 0 initial_hook]
  show ?thesis
    using first second third last s0 s1 s3 i0 by (simp add: gameOver_fields)
qed

section \<open>Collecting a bone\<close>

text \<open>
  Claim C10. Collecting an uncollected active bone adds 2 to the session coin counter and
  to the total-currency balance when the 2x collector is running in the render the callback
  closes over, and 1 otherwise; the new balance is written to the store; the score grows
  by twice the point value of the bone in the first case and by the point value in the
  second.
\<close>

theorem collectCoin_counts:
  "i < length (collectibles c) \<and> \<not> collected (collectibles c ! i) \<and> active (collectibles c ! i) \<longrightarrow>
     (let double = power_running (activePowers c) ''double_collector'' now;
          st' = collectCoin rnd now c i st
      in coins (gameState st') = coins (gameState st) + (if double then 2 else 1) \<and>
         totalCoinsCollected st' = totalCoinsCollected st + (if double then 2 else 1) \<and>
         localStorage st' ''dogeTotalCoins''
           = Some (toString (totalCoinsCollected st + (if double then 2 else 1))) \<and>
         score (gameState st')
           = score (gameState st)
             + (if double then coin_value (collectibles c ! i) * 2 else coin_value (collectibles c ! i)))"
  by (simp add: collectCoin_def Let_def setItem_def)

text \<open>
  One bone worth 10 points, from counters at 0: with the 2x collector running until 31000,
  a collection at time 1000 gives 2 coins, a balance of 2 and a score of 20; without it,
  1 coin, a balance of 1 and a score of 10.
\<close>

theorem collectCoin_counts_witness:
  "coins (gameState (collectCoin (\<lambda>_. draw_half) 1000
       (initial_hook\<lparr>collectibles := [example_coin 100],
                      activePowers := [''double_collector'' \<mapsto> 31000]\<rparr>) 0
       (initial_hook\<lparr>collectibles := [example_coin 100],
                      activePowers := [''double_collector'' \<mapsto> 31000]\<rparr>))) = 2 \<and>
   totalCoinsCollected (collectCoin (\<lambda>_. draw_half) 1000
       (initial_hook\<lparr>collectibles := [example_coin 100],
                      activePowers := [''double_collector'' \<mapsto> 31000]\<rparr>) 0
       (initial_hook\<lparr>collectibles := [example_coin 100],
                      activePowers := [''double_collector'' \<mapsto> 31000]\<rparr>)) = 2 \<and>
   score (gameState (collectCoin (\<lambda>_. draw_half) 1000
       (initial_hook\<lparr>collectibles := [example_coin 100],
                      activePowers := [''double_collector'' \<mapsto> 31000]\<rparr>) 0
       (initial_hook\<lparr>collectibles := [example_coin 100],
                      activePowers := [''double_collector'' \<mapsto> 31000]\<rparr>))) = 20 \<and>
   coins (gameState (collectCoin (\<lambda>_. draw_half) 1000
       (initial_hook\<lparr>collectibles := [example_coin 100]\<rparr>) 0
       (initial_hook\<lparr>collectibles := [example_coin 100]\<rparr>))) = 1 \<and>
   totalCoinsCollected (collectCoin (\<lambda>_. draw_half) 1000
       (initial_hook\<lparr>collectibles := [example_coin 100]\<rparr>) 0
       (initial_hook\<lparr>collectibles := [example_coin 100]\<rparr>)) = 1 \<and>
   score (gameState (collectCoin (\<lambda>_. draw_half) 1000
       (initial_hook\<lparr>collectibles := [example_coin 100]\<rparr>) 0
       (initial_hook\<lparr>collectibles := [example_coin 100]\<rparr>))) = 10"
  using collectCoin_counts [of 0 "initial_hook\<lparr>collectibles := [example_coin 100],
                      activePowers := [''double_collector'' \<mapsto> 31000]\<rparr>" 1000 "\<lambda>_. draw_half"
      "initial_hook\<lparr>collectibles := [example_coin 100],
                      activePowers := [''double_collector'' \<mapsto> 31000]\<rparr>"]
    collectCoin_counts [of 0 "initial_hook\<lparr>collectibles := [example_coin 100]\<rparr>" 1000 "\<lambda>_. draw_half"
      "initial_hook\<lparr>collectibles := [example_coin 100]\<rparr>"]
  by (simp add: Let_def initial_hook_def example_coin_def power_running_def COIN_VALUE_def)

section \<open>The collision effect collects what is in reach\<close>

lemma sqrt_le_150: "sqrt x \<le> 150 \<longleftrightarrow> x \<le> 22500"
proof -
  have "sqrt 22500 = 150"
    by (rule real_sqrt_unique) simp_all
  then show ?thesis
    using real_sqrt_le_iff [of x 22500] by simp
qed

lemma gameOver_collectibles: "collectibles (gameOver rnd c st) = collectibles st"
  by (simp add: gameOver_def Let_def)

lemma loseLife_collectibles: "collectibles (loseLife rnd now c st) = collectibles st"
  by (simp add: loseLife_def Let_def gameOver_collectibles)

lemma obstacle_fold_collectibles:
  "collectibles (fold (obstacle_step rnd now c) os st) = collectibles st"
  by (induction os arbitrary: st) (simp_all add: obstacle_step_def loseLife_collectibles)

lemma coin_step_collectibles:
  "collectibles (coin_step rnd now c m i st) =
     (if \<not> collected (collectibles c ! i) \<and> active (collectibles c ! i) \<and> in_reach c m i
      then (collectibles st)[i := mark_collected (collectibles st ! i)]
      else collectibles st)"
  by (simp add: coin_step_def collectCoin_def Let_def in_reach_def mark_collected_def)

text \<open>
  The loop over the coins touches position \<open>j\<close> only at the index \<open>j\<close>, and marking a
  coin twice is marking it once.
\<close>

lemma coin_fold_collectibles:
  "j < length (collectibles st) \<Longrightarrow>
   length (collectibles (fold (coin_step rnd now c m) is st)) = length (collectibles st) \<and>
   collectibles (fold (coin_step rnd now c m) is st) ! j =
     (if j \<in> set is \<and> \<not> collected (collectibles c ! j) \<and> active (collectibles c ! j) \<and> in_reach c m j
      then mark_collected (collectibles st ! j)
      else collectibles st ! j)"
proof (induction "is" arbitrary: st)
  case Nil
  then show ?case by simp
next
  case (Cons i "is")
  let ?st = "coin_step rnd now c m i st"
  have len: "length (collectibles ?st) = length (collectibles st)"
    by (simp add: coin_step_collectibles)
  have nth: "collectibles ?st ! k =
      (if k = i \<and> \<not> collected (collectibles c ! i) \<and> active (collectibles c ! i) \<and> in_reach c m i
       then mark_collected (collectibles st ! k) else collectibles st ! k)"
    if "k < length (collectibles st)" for k
    using that by (simp add: coin_step_collectibles nth_list_update)
  have idem: "mark_collected (mark_collected coin) = mark_collected coin" for coin
    by (simp add: mark_collected_def)
  from Cons.prems len have "j < length (collectibles ?st)" by simp
  from Cons.IH [OF this] Cons.prems show ?case
    by (auto simp: len nth idem)
qed

text \<open>
  Claim C5. In a pass of the collision effect over a playing render, a bone that is
  uncollected and active in that render is collected by the pass if and only if: with the
  magnet running, the Euclidean distance between the centre of the player and the centre
  of the bone is at most 150; with the magnet not running, the bounding box of the bone
  overlaps that of the player. Distances are those of the real numbers.
\<close>

theorem collision_collects:
  "isPlaying (gameState c) \<and> i < length (collectibles c) \<and>
   \<not> collected (collectibles c ! i) \<and> active (collectibles c ! i) \<longrightarrow>
     (collected (collectibles (collision_effect rnd now c) ! i) \<longleftrightarrow>
        (if power_running (activePowers c) ''magnetic_collector'' now
         then sqrt (((pos_x (position (player c)) + width (player c) / 2)
                       - (pos_x (position (collectibles c ! i)) + width (collectibles c ! i) / 2))\<^sup>2
                    + ((pos_y (position (player c)) + height (player c) / 2)
                       - (pos_y (position (collectibles c ! i)) + height (collectibles c ! i) / 2))\<^sup>2)
              \<le> 150
         else checkCollision (player c) (collectibles c ! i)))"
proof (intro impI, elim conjE)
  assume playing: "isPlaying (gameState c)" and i: "i < length (collectibles c)"
    and fresh: "\<not> collected (collectibles c ! i)" "active (collectibles c ! i)"
  let ?m = "power_running (activePowers c) ''magnetic_collector'' now"
  let ?st1 = "fold (obstacle_step rnd now c) (obstacles c) c"
  have st1: "collectibles ?st1 = collectibles c"
    by (rule obstacle_fold_collectibles)
  have eff: "collision_effect rnd now c
      = fold (coin_step rnd now c ?m) [0..<length (collectibles c)] ?st1"
    using playing by (simp add: collision_effect_def Let_def)
  have "collectibles (collision_effect rnd now c) ! i =
      (if in_reach c ?m i then mark_collected (collectibles c ! i) else collectibles c ! i)"
    unfolding eff using coin_fold_collectibles [of i ?st1 rnd now c ?m "[0..<length (collectibles c)]"]
      i fresh by (simp add: st1)
  then show "collected (collectibles (collision_effect rnd now c) ! i) \<longleftrightarrow>
        (if ?m
         then sqrt (((pos_x (position (player c)) + width (player c) / 2)
                       - (pos_x (position (collectibles c ! i)) + width (collectibles c ! i) / 2))\<^sup>2
                    + ((pos_y (position (player c)) + height (player c) / 2)
                       - (pos_y (position (collectibles c ! i)) + height (collectibles c ! i) / 2))\<^sup>2)
              \<le> 150
         else checkCollision (player c) (collectibles c ! i))"
    using fresh by (simp add: in_reach_def mark_collected_def power2_eq_square)
qed

lemma magnet_hook_cells:
  "isPlaying (gameState (magnet_hook cx))"
  "length (collectibles (magnet_hook cx)) = 1"
  "collectibles (magnet_hook cx) ! 0 = example_coin cx"
  "player (magnet_hook cx) = initial_player"
  "power_running (activePowers (magnet_hook cx)) ''magnetic_collector'' 1000"
  by (simp_all add: magnet_hook_def playing_hook_def initial_hook_def power_running_def)

lemma plain_hook_cells:
  "isPlaying (gameState (playing_hook\<lparr>collectibles := [example_coin cx]\<rparr>))"
  "length (collectibles (playing_hook\<lparr>collectibles := [example_coin cx]\<rparr>)) = 1"
  "collectibles (playing_hook\<lparr>collectibles := [example_coin cx]\<rparr>) ! 0 = example_coin cx"
  "player (playing_hook\<lparr>collectibles := [example_coin cx]\<rparr>) = initial_player"
  "\<not> power_running (activePowers (playing_hook\<lparr>collectibles := [example_coin cx]\<rparr>))
       ''magnetic_collector'' 1000"
  by (simp_all add: playing_hook_def initial_hook_def power_running_def)

lemma example_coin_fresh: "\<not> collected (example_coin cx)" "active (example_coin cx)"
  by (simp_all add: example_coin_def)

text \<open>
  The standing player has its centre at (130, 475); the example bone at screen x \<open>cx\<close>
  has its centre at (\<open>cx\<close> + 32.5, 475).
\<close>

lemma example_distance:
  "sqrt (((pos_x (position initial_player) + width initial_player / 2)
            - (pos_x (position (example_coin cx)) + width (example_coin cx) / 2))\<^sup>2
         + ((pos_y (position initial_player) + height initial_player / 2)
            - (pos_y (position (example_coin cx)) + height (example_coin cx) / 2))\<^sup>2)
     = \<bar>cx - 97.5\<bar>"
  by (simp add: initial_player_def example_coin_def GROUND_Y_def abs_minus_commute)

lemma example_overlap:
  "checkCollision initial_player (example_coin cx) \<longleftrightarrow> 35 < cx \<and> cx < 160"
  by (auto simp: checkCollision_def initial_player_def example_coin_def GROUND_Y_def)

text \<open>
  Scenario E. With the magnet running, the bone whose centre is 140 away is collected
  although it does not overlap the player, and the bone 160 away is not. Without the
  magnet the bone 140 away is not collected, and a bone that overlaps the player is.
\<close>

theorem collision_collects_witness:
  "collected (collectibles (collision_effect (\<lambda>_. draw_half) 1000 (magnet_hook 237.5)) ! 0) \<and>
   \<not> checkCollision (player (magnet_hook 237.5)) (collectibles (magnet_hook 237.5) ! 0) \<and>
   \<not> collected (collectibles (collision_effect (\<lambda>_. draw_half) 1000 (magnet_hook 257.5)) ! 0) \<and>
   \<not> collected (collectibles (collision_effect (\<lambda>_. draw_half) 1000
        (playing_hook\<lparr>collectibles := [example_coin 237.5]\<rparr>)) ! 0) \<and>
   collected (collectibles (collision_effect (\<lambda>_. draw_half) 1000
        (playing_hook\<lparr>collectibles := [example_coin 100]\<rparr>)) ! 0)"
proof -
  let ?r = "\<lambda>_::nat. draw_half"
  have magnet: "collected (collectibles (collision_effect ?r 1000 (magnet_hook cx)) ! 0)
      \<longleftrightarrow> \<bar>cx - 97.5\<bar> \<le> 150" for cx
    using collision_collects [of "magnet_hook cx" 0 ?r 1000]
    by (simp only: magnet_hook_cells example_coin_fresh example_distance) simp
  have plain: "collected (collectibles (collision_effect ?r 1000
        (playing_hook\<lparr>collectibles := [example_coin cx]\<rparr>)) ! 0)
      \<longleftrightarrow> 35 < cx \<and> cx < 160" for cx
    using collision_collects [of "playing_hook\<lparr>collectibles := [example_coin cx]\<rparr>" 0 ?r 1000]
    by (simp only: plain_hook_cells example_coin_fresh example_overlap) simp
  show ?thesis
    by (simp add: magnet plain magnet_hook_cells example_overlap)
qed

section \<open>The spawner\<close>

text \<open>
  The scroll speed never exceeds 16, and every bone position lies at least 60 beyond the
  right edge of its obstacle.
\<close>

lemma getGameSpeed_le: "getGameSpeed sc \<le> 16"
  by (simp add: getGameSpeed_def MAX_SCROLL_SPEED_def)

lemma bone_option_ahead:
  "i < length (bonePositionOptions nextX w) \<Longrightarrow> nextX + w + 60 \<le> opt_x (bonePositionOptions nextX w ! i)"
proof -
  have "\<forall>b \<in> set (bonePositionOptions nextX w). nextX + w + 60 \<le> opt_x b"
    by (simp add: bonePositionOptions_def)
  then show "i < length (bonePositionOptions nextX w) \<Longrightarrow> ?thesis"
    using nth_mem by blast
qed

text \<open>The spawn block.\<close>

lemma spawn_not_due: "\<not> spawn_due c \<Longrightarrow> spawn rnd c st = st"
  by (simp add: spawn_def spawn_due_def Let_def)

lemma spawn_due_obstacles:
  "spawn_due c \<Longrightarrow>
   \<exists>obstacle. obstacles (spawn rnd c st) = obstacles st @ [obstacle] \<and>
     pos_x (position obstacle) + worldOffset c = nextObstacleX c \<and> width obstacle = 60"
  by (simp add: spawn_def spawn_due_def Let_def)

lemma spawn_due_collectibles:
  "spawn_due c \<Longrightarrow>
   \<exists>bone. collectibles (spawn rnd c st) = collectibles st @ [bone] \<and>
     nextObstacleX c + 120 \<le> pos_x (position bone) + worldOffset c \<and>
     width bone = 65 \<and> active bone"
  using bone_option_ahead [OF select_index_in_range, of "nextObstacleX c" 60 "Math_random rnd (rngPos st + 1)"]
  by (simp add: spawn_def spawn_due_def Let_def)

lemma spawn_due_cursor:
  "spawn_due c \<Longrightarrow> nextObstacleX (spawn rnd c st) = nextObstacleX c + 60 + 200"
  by (simp add: spawn_def spawn_due_def Let_def)

lemma spawn_other_cells:
  "gameState (spawn rnd c st) = gameState st"
  "worldOffset (spawn rnd c st) = worldOffset st"
  by (simp_all add: spawn_def Let_def)

text \<open>
  What the game loop does to the cells the spawner depends on. The lists a frame returns
  are those of its spawn block, moved and pruned.
\<close>

lemma gameLoop_cursor:
  "nextObstacleX (gameLoop rnd c) =
     (if isPlaying (gameState c) \<and> spawn_due c then nextObstacleX c + 260 else nextObstacleX c)"
proof (cases "spawn_due c")
  case True
  then show ?thesis by (simp add: gameLoop_def Let_def spawn_due_cursor)
next
  case False
  then show ?thesis by (simp add: gameLoop_def Let_def spawn_not_due)
qed

lemma gameLoop_worldOffset:
  "worldOffset (gameLoop rnd c) =
     (if isPlaying (gameState c) then worldOffset c + getGameSpeed (of_int (score (gameState c)))
      else worldOffset c)"
  by (simp add: gameLoop_def Let_def spawn_other_cells)

lemma gameLoop_isPlaying: "isPlaying (gameState (gameLoop rnd c)) = isPlaying (gameState c)"
  by (simp add: gameLoop_def Let_def spawn_other_cells)

lemma scroll_obstacle_fun:
  "scroll_obstacle v =
     (\<lambda>obstacle. obstacle\<lparr>position := (position obstacle)\<lparr>pos_x := pos_x (position obstacle) - v\<rparr>\<rparr>)"
  by (rule ext) (simp add: scroll_obstacle_def)

lemma scroll_collectible_fun:
  "scroll_collectible v =
     (\<lambda>collectible. collectible
        \<lparr> position := (position collectible)\<lparr>pos_x := pos_x (position collectible) - v\<rparr>,
          animation := animation collectible + 0.08 \<rparr>)"
  by (rule ext) (simp add: scroll_collectible_def)

lemma gameLoop_obstacles:
  "isPlaying (gameState c) \<Longrightarrow>
   obstacles (gameLoop rnd c) =
     filter (\<lambda>obstacle. \<not> isOffScreen obstacle)
       (map (scroll_obstacle (getGameSpeed (of_int (score (gameState c))))) (obstacles (spawn rnd c c)))"
  by (simp add: gameLoop_def Let_def spawn_def scroll_obstacle_fun)

lemma gameLoop_collectibles:
  "isPlaying (gameState c) \<Longrightarrow>
   collectibles (gameLoop rnd c) =
     filter (\<lambda>collectible. \<not> isOffScreen collectible \<and> active collectible)
       (map (scroll_collectible (getGameSpeed (of_int (score (gameState c))))) (collectibles (spawn rnd c c)))"
  by (simp add: gameLoop_def Let_def spawn_def scroll_collectible_fun)

text \<open>
  A playing frame whose cursor is not behind the left edge of the view keeps what it
  spawns: the new obstacle and the new bone are on screen after the move.
\<close>

lemma frame_obstacles_due:
  assumes "isPlaying (gameState c)" "worldOffset c \<le> nextObstacleX c" "spawn_due c"
  shows "\<exists>obstacle. obstacles (gameLoop rnd c) = carried_obstacles Frame c @ [obstacle] \<and>
           pos_x (position obstacle) + worldOffset (gameLoop rnd c) = nextObstacleX c \<and>
           width obstacle = 60"
proof -
  let ?v = "getGameSpeed (of_int (score (gameState c)))"
  obtain ob where ob: "obstacles (spawn rnd c c) = obstacles c @ [ob]"
    "pos_x (position ob) + worldOffset c = nextObstacleX c" "width ob = 60"
    using spawn_due_obstacles [OF assms(3), of rnd c] by blast
  have on_screen: "\<not> isOffScreen (scroll_obstacle ?v ob)"
    using ob(2,3) assms(2) getGameSpeed_le [of "of_int (score (gameState c))"]
    by (simp add: isOffScreen_def scroll_obstacle_def)
  have "obstacles (gameLoop rnd c) = carried_obstacles Frame c @ [scroll_obstacle ?v ob]"
    using assms(1) on_screen by (simp add: gameLoop_obstacles ob(1) carried_obstacles_def)
  moreover have "pos_x (position (scroll_obstacle ?v ob)) + worldOffset (gameLoop rnd c) = nextObstacleX c"
    using assms(1) ob(2) by (simp add: gameLoop_worldOffset scroll_obstacle_def)
  moreover have "width (scroll_obstacle ?v ob) = 60"
    using ob(3) by (simp add: scroll_obstacle_def)
  ultimately show ?thesis by blast
qed

lemma frame_collectibles_due:
  assumes "isPlaying (gameState c)" "worldOffset c \<le> nextObstacleX c" "spawn_due c"
  shows "\<exists>bone. collectibles (gameLoop rnd c) = carried_collectibles Frame c @ [bone]"
proof -
  let ?v = "getGameSpeed (of_int (score (gameState c)))"
  obtain bone where bone: "collectibles (spawn rnd c c) = collectibles c @ [bone]"
    "nextObstacleX c + 120 \<le> pos_x (position bone) + worldOffset c" "width bone = 65" "active bone"
    using spawn_due_collectibles [OF assms(3), of rnd c] by blast
  have kept: "\<not> isOffScreen (scroll_collectible ?v bone) \<and> active (scroll_collectible ?v bone)"
    using bone(2,3,4) assms(2) getGameSpeed_le [of "of_int (score (gameState c))"]
    by (simp add: isOffScreen_def scroll_collectible_def)
  have "collectibles (gameLoop rnd c) = carried_collectibles Frame c @ [scroll_collectible ?v bone]"
    using assms(1) kept by (simp add: gameLoop_collectibles bone(1) carried_collectibles_def)
  then show ?thesis by blast
qed

lemma frame_not_due:
  assumes "isPlaying (gameState c)" "\<not> spawn_due c"
  shows "obstacles (gameLoop rnd c) = carried_obstacles Frame c"
    "collectibles (gameLoop rnd c) = carried_collectibles Frame c"
  using assms
  by (simp_all add: gameLoop_obstacles gameLoop_collectibles spawn_not_due
        carried_obstacles_def carried_collectibles_def)


text \<open>No other event moves the world, the cursor or the obstacles, or changes the number of bones.\<close>

lemma jump_cells:
  "gameState (jump rnd s) = gameState s"
  "worldOffset (jump rnd s) = worldOffset s"
  "nextObstacleX (jump rnd s) = nextObstacleX s"
  "obstacles (jump rnd s) = obstacles s"
  "collectibles (jump rnd s) = collectibles s"
  by (simp_all add: jump_def Let_def)

lemma run_timeouts_cells:
  "worldOffset (run_timeouts now s) = worldOffset s"
  "nextObstacleX (run_timeouts now s) = nextObstacleX s"
  "obstacles (run_timeouts now s) = obstacles s"
  "collectibles (run_timeouts now s) = collectibles s"
  by (simp_all add: run_timeouts_def)

lemma gameOver_cells:
  "worldOffset (gameOver rnd c st) = worldOffset st"
  "nextObstacleX (gameOver rnd c st) = nextObstacleX st"
  "obstacles (gameOver rnd c st) = obstacles st"
  by (simp_all add: gameOver_def Let_def)

lemma loseLife_cells:
  "worldOffset (loseLife rnd now c st) = worldOffset st"
  "nextObstacleX (loseLife rnd now c st) = nextObstacleX st"
  "obstacles (loseLife rnd now c st) = obstacles st"
  by (simp_all add: loseLife_def Let_def gameOver_cells)

lemma collectCoin_cells:
  "worldOffset (collectCoin rnd now c i st) = worldOffset st"
  "nextObstacleX (collectCoin rnd now c i st) = nextObstacleX st"
  "obstacles (collectCoin rnd now c i st) = obstacles st"
  "length (collectibles (collectCoin rnd now c i st)) = length (collectibles st)"
  by (simp_all add: collectCoin_def Let_def)

lemma obstacle_fold_cells:
  "worldOffset (fold (obstacle_step rnd now c) os st) = worldOffset st"
  "nextObstacleX (fold (obstacle_step rnd now c) os st) = nextObstacleX st"
  "obstacles (fold (obstacle_step rnd now c) os st) = obstacles st"
  by (induction os arbitrary: st) (simp_all add: obstacle_step_def loseLife_cells)

lemma coin_fold_cells:
  "worldOffset (fold (coin_step rnd now c m) is st) = worldOffset st"
  "nextObstacleX (fold (coin_step rnd now c m) is st) = nextObstacleX st"
  "obstacles (fold (coin_step rnd now c m) is st) = obstacles st"
  "length (collectibles (fold (coin_step rnd now c m) is st)) = length (collectibles st)"
  by (induction "is" arbitrary: st) (simp_all add: coin_step_def Let_def collectCoin_cells)

lemma collision_effect_cells:
  "worldOffset (collision_effect rnd now c) = worldOffset c"
  "nextObstacleX (collision_effect rnd now c) = nextObstacleX c"
  "obstacles (collision_effect rnd now c) = obstacles c"
  "length (collectibles (collision_effect rnd now c)) = length (collectibles c)"
  by (simp_all add: collision_effect_def Let_def coin_fold_cells obstacle_fold_cells
        obstacle_fold_collectibles)

lemma step_cursor:
  "nextObstacleX (step rnd e s) =
     (if e = Frame \<and> isPlaying (gameState s) \<and> spawn_due s then nextObstacleX s + 260
      else nextObstacleX s)"
  by (cases e) (simp_all add: gameLoop_cursor jump_cells collision_effect_cells run_timeouts_cells)

lemma step_worldOffset:
  "worldOffset (step rnd e s) =
     (if e = Frame \<and> isPlaying (gameState s)
      then worldOffset s + getGameSpeed (of_int (score (gameState s))) else worldOffset s)"
  by (cases e) (simp_all add: gameLoop_worldOffset jump_cells collision_effect_cells run_timeouts_cells)

text \<open>The obstacles an event returns are those carried over followed by those created.\<close>

lemma step_obstacles:
  "obstacles (step rnd e s) = carried_obstacles e s @ new_obstacles rnd e s"
proof -
  have "length (carried_obstacles e s) \<le> length (obstacles (step rnd e s)) \<and>
      take (length (carried_obstacles e s)) (obstacles (step rnd e s)) = carried_obstacles e s"
  proof (cases "e = Frame \<and> isPlaying (gameState s)")
    case True
    then have e: "e = Frame" and playing: "isPlaying (gameState s)" by simp_all
    show ?thesis
    proof (cases "spawn_due s")
      case True
      have "filter (\<lambda>obstacle. \<not> isOffScreen obstacle)
          (map (scroll_obstacle (getGameSpeed (of_int (score (gameState s))))) (obstacles (spawn rnd s s)))
        = carried_obstacles Frame s
          @ filter (\<lambda>obstacle. \<not> isOffScreen obstacle)
              (map (scroll_obstacle (getGameSpeed (of_int (score (gameState s)))))
                 (drop (length (obstacles s)) (obstacles (spawn rnd s s))))"
        using spawn_due_obstacles [OF True, of rnd s] playing
        by (auto simp: carried_obstacles_def)
      then show ?thesis
        using playing by (simp add: e gameLoop_obstacles)
    next
      case False
      then show ?thesis
        using playing by (simp add: e frame_not_due)
    qed
  next
    case False
    then have "obstacles (step rnd e s) = obstacles s"
      by (cases e) (simp_all add: gameLoop_def jump_cells collision_effect_cells run_timeouts_cells)
    moreover have "carried_obstacles e s = obstacles s"
      using False by (auto simp: carried_obstacles_def)
    ultimately show ?thesis by simp
  qed
  then show ?thesis
    unfolding new_obstacles_def by (metis append_take_drop_id)
qed

text \<open>What a step creates, when the cursor is not behind the left edge of the view.\<close>

lemma step_created:
  assumes "worldOffset s \<le> nextObstacleX s"
  shows "map (\<lambda>obstacle. pos_x (position obstacle) + worldOffset (step rnd e s)) (new_obstacles rnd e s)
           = (if e = Frame \<and> isPlaying (gameState s) \<and> spawn_due s then [nextObstacleX s] else [])"
    and "length (new_collectibles rnd e s)
           = (if e = Frame \<and> isPlaying (gameState s) \<and> spawn_due s then 1 else 0)"
proof -
  consider (spawn) "e = Frame" "isPlaying (gameState s)" "spawn_due s"
    | (scroll) "e = Frame" "isPlaying (gameState s)" "\<not> spawn_due s"
    | (other) "\<not> (e = Frame \<and> isPlaying (gameState s))"
    by blast
  then have "map (\<lambda>obstacle. pos_x (position obstacle) + worldOffset (step rnd e s)) (new_obstacles rnd e s)
           = (if e = Frame \<and> isPlaying (gameState s) \<and> spawn_due s then [nextObstacleX s] else []) \<and>
         length (new_collectibles rnd e s)
           = (if e = Frame \<and> isPlaying (gameState s) \<and> spawn_due s then 1 else 0)"
  proof cases
    case spawn
    obtain obstacle where ob: "obstacles (gameLoop rnd s) = carried_obstacles Frame s @ [obstacle]"
      "pos_x (position obstacle) + worldOffset (gameLoop rnd s) = nextObstacleX s"
      using frame_obstacles_due [OF spawn(2) assms spawn(3), of rnd] by blast
    obtain bone where bone: "collectibles (gameLoop rnd s) = carried_collectibles Frame s @ [bone]"
      using frame_collectibles_due [OF spawn(2) assms spawn(3), of rnd] by blast
    show ?thesis
      using spawn ob bone by (simp add: new_obstacles_def new_collectibles_def)
  next
    case scroll
    then show ?thesis
      by (simp add: new_obstacles_def new_collectibles_def frame_not_due)
  next
    case other
    then have "obstacles (step rnd e s) = obstacles s \<and>
        length (collectibles (step rnd e s)) = length (collectibles s)"
      by (cases e) (simp_all add: gameLoop_def jump_cells collision_effect_cells run_timeouts_cells)
    moreover have "carried_obstacles e s = obstacles s" "carried_collectibles e s = collectibles s"
      using other by (auto simp: carried_obstacles_def carried_collectibles_def)
    moreover have "\<not> (e = Frame \<and> isPlaying (gameState s) \<and> spawn_due s)"
      using other by blast
    ultimately show ?thesis
      by (simp add: new_obstacles_def new_collectibles_def del: step.simps)
  qed
  then show "map (\<lambda>obstacle. pos_x (position obstacle) + worldOffset (step rnd e s)) (new_obstacles rnd e s)
           = (if e = Frame \<and> isPlaying (gameState s) \<and> spawn_due s then [nextObstacleX s] else [])"
    and "length (new_collectibles rnd e s)
           = (if e = Frame \<and> isPlaying (gameState s) \<and> spawn_due s then 1 else 0)"
    by simp_all
qed

text \<open>
  The cursor stays at or beyond the left edge of the view: a frame moves the view by at
  most 16, and spawns as soon as the right edge, 800 further, reaches the cursor.
\<close>

lemma step_cursor_ahead:
  assumes "worldOffset s \<le> nextObstacleX s"
  shows "worldOffset (step rnd e s) \<le> nextObstacleX (step rnd e s)"
  using assms getGameSpeed_le [of "of_int (score (gameState s))"]
  by (auto simp: step_cursor step_worldOffset spawn_due_def CANVAS_WIDTH_def)

text \<open>
  The obstacles a session creates stand at the cursor of its first state and then every
  260 pixels, and there are as many bones as obstacles.
\<close>

lemma created_shape:
  "worldOffset s \<le> nextObstacleX s \<Longrightarrow>
   \<exists>n. created_obstacles rnd evs s = map (\<lambda>i. nextObstacleX s + 260 * real i) [0..<n] \<and>
       length (created_collectibles rnd evs s) = n"
proof (induction evs arbitrary: s)
  case Nil
  show ?case by (rule exI [of _ 0]) simp
next
  case (Cons e evs)
  have ahead: "worldOffset (step rnd e s) \<le> nextObstacleX (step rnd e s)"
    using Cons.prems by (rule step_cursor_ahead)
  obtain n where n:
    "created_obstacles rnd evs (step rnd e s)
       = map (\<lambda>i. nextObstacleX (step rnd e s) + 260 * real i) [0..<n]"
    "length (created_collectibles rnd evs (step rnd e s)) = n"
    using Cons.IH [OF ahead] by blast
  note new = step_created [OF Cons.prems, of rnd e]
  show ?case
  proof (cases "e = Frame \<and> isPlaying (gameState s) \<and> spawn_due s")
    case True
    have "map (\<lambda>i. nextObstacleX s + 260 * real i) [0..<Suc n]
        = nextObstacleX s # map (\<lambda>i. nextObstacleX s + 260 + 260 * real i) [0..<n]"
      by (simp add: map_upt_Suc algebra_simps del: upt_Suc)
    moreover have "nextObstacleX (step rnd e s) = nextObstacleX s + 260"
      unfolding step_cursor using True by simp
    ultimately show ?thesis
      using True n new
      by (intro exI [of _ "Suc n"]) (simp del: upt_Suc step.simps)
  next
    case False
    moreover have "nextObstacleX (step rnd e s) = nextObstacleX s"
      unfolding step_cursor using False by simp
    ultimately show ?thesis
      using n new
      by (intro exI [of _ n]) (simp del: step.simps)
  qed
qed

text \<open>A new game starts with the view at 0 and the cursor at 900.\<close>

lemma auto_activate_cells:
  "worldOffset (auto_activate now powerId c st) = worldOffset st"
  "nextObstacleX (auto_activate now powerId c st) = nextObstacleX st"
  "obstacles (auto_activate now powerId c st) = obstacles st"
  "collectibles (auto_activate now powerId c st) = collectibles st"
  "gameState (auto_activate now powerId c st) = gameState st"
  by (simp_all add: auto_activate_def usePower_def Let_def split: option.splits)

lemma startGame_cells:
  "worldOffset (startGame now c) = 0"
  "nextObstacleX (startGame now c) = 900"
  "obstacles (startGame now c) = []"
  "collectibles (startGame now c) = []"
  "isPlaying (gameState (startGame now c))"
  by (simp_all add: startGame_def Let_def auto_activate_cells closeShop_def CANVAS_WIDTH_def)


text \<open>
  Claim C3. What is created is read off the states the events return. Over every session
  (every sequence of frames, jumps, collision passes and time-outs, with every random
  source) from a state whose cursor is not behind the left edge of the view, and so over
  every session from a new game, the number of bones created equals the number of
  obstacles created and the world-space x of consecutive created obstacles differ by
  exactly 60 + 200; from a new game the obstacles stand at 900, 1160, 1420 and so on, one
  for each bone. The obstacles every event returns are the ones carried over followed by
  the ones created.
  A playing frame whose spawn is due returns the carried bones followed by exactly one
  new bone, creates exactly one obstacle, of width 60 and at the world-space x of the
  cursor, and moves the cursor on by the width of the obstacle plus 200; a playing frame
  whose spawn is not due creates nothing and leaves the cursor. The spawn block itself
  appends exactly one obstacle and one bone when due, and changes nothing otherwise.
  Coordinates are real numbers.
\<close>

theorem spawner_pairing:
  "(worldOffset s \<le> nextObstacleX s \<longrightarrow>
      length (created_collectibles rnd evs s) = length (created_obstacles rnd evs s) \<and>
      (\<forall>i. Suc i < length (created_obstacles rnd evs s) \<longrightarrow>
           created_obstacles rnd evs s ! Suc i - created_obstacles rnd evs s ! i = 60 + 200)) \<and>
   created_obstacles rnd evs (startGame now s)
     = map (\<lambda>i. 900 + (60 + 200) * real i)
         [0..<length (created_collectibles rnd evs (startGame now s))] \<and>
   obstacles (step rnd e s) = carried_obstacles e s @ new_obstacles rnd e s \<and>
   (isPlaying (gameState c) \<and> worldOffset c \<le> nextObstacleX c \<and>
    worldOffset c + CANVAS_WIDTH \<ge> nextObstacleX c \<longrightarrow>
      collectibles (gameLoop rnd c) = carried_collectibles Frame c @ new_collectibles rnd Frame c \<and>
      length (new_obstacles rnd Frame c) = 1 \<and>
      length (new_collectibles rnd Frame c) = 1 \<and>
      width (hd (new_obstacles rnd Frame c)) = 60 \<and>
      pos_x (position (hd (new_obstacles rnd Frame c))) + worldOffset (gameLoop rnd c)
        = nextObstacleX c \<and>
      nextObstacleX (gameLoop rnd c)
        = nextObstacleX c + width (hd (new_obstacles rnd Frame c)) + 200) \<and>
   (isPlaying (gameState c) \<and> \<not> worldOffset c + CANVAS_WIDTH \<ge> nextObstacleX c \<longrightarrow>
      new_obstacles rnd Frame c = [] \<and> new_collectibles rnd Frame c = [] \<and>
      nextObstacleX (gameLoop rnd c) = nextObstacleX c) \<and>
   (worldOffset c + CANVAS_WIDTH \<ge> nextObstacleX c \<longrightarrow>
      length (obstacles (spawn rnd c st)) = length (obstacles st) + 1 \<and>
      length (collectibles (spawn rnd c st)) = length (collectibles st) + 1 \<and>
      width (last (obstacles (spawn rnd c st))) = 60 \<and>
      pos_x (position (last (obstacles (spawn rnd c st)))) + worldOffset c = nextObstacleX c \<and>
      nextObstacleX (spawn rnd c st) = nextObstacleX c + width (last (obstacles (spawn rnd c st))) + 200) \<and>
   (\<not> worldOffset c + CANVAS_WIDTH \<ge> nextObstacleX c \<longrightarrow> spawn rnd c st = st)"
proof -
  have general: "length (created_collectibles rnd evs s') = length (created_obstacles rnd evs s') \<and>
      (\<forall>i. i < length (created_obstacles rnd evs s') \<longrightarrow>
           created_obstacles rnd evs s' ! i = nextObstacleX s' + 260 * real i)"
    if ahead: "worldOffset s' \<le> nextObstacleX s'" for s'
  proof -
    obtain n where n:
      "created_obstacles rnd evs s' = map (\<lambda>i. nextObstacleX s' + 260 * real i) [0..<n]"
      "length (created_collectibles rnd evs s') = n"
      using created_shape [OF ahead] by blast
    show ?thesis by (simp add: n)
  qed
  have session: "worldOffset s \<le> nextObstacleX s \<longrightarrow>
      length (created_collectibles rnd evs s) = length (created_obstacles rnd evs s) \<and>
      (\<forall>i. Suc i < length (created_obstacles rnd evs s) \<longrightarrow>
           created_obstacles rnd evs s ! Suc i - created_obstacles rnd evs s ! i = 60 + 200)"
  proof
    assume ahead: "worldOffset s \<le> nextObstacleX s"
    from general [OF ahead] show "length (created_collectibles rnd evs s) = length (created_obstacles rnd evs s) \<and>
      (\<forall>i. Suc i < length (created_obstacles rnd evs s) \<longrightarrow>
           created_obstacles rnd evs s ! Suc i - created_obstacles rnd evs s ! i = 60 + 200)"
      by (simp add: algebra_simps)
  qed
  have "worldOffset (startGame now s) \<le> nextObstacleX (startGame now s)"
    by (simp add: startGame_cells)
  from created_shape [OF this, of rnd evs]
  have game: "created_obstacles rnd evs (startGame now s)
      = map (\<lambda>i. 900 + (60 + 200) * real i)
          [0..<length (created_collectibles rnd evs (startGame now s))]"
    by (auto simp: startGame_cells)
  have link: "obstacles (step rnd e s) = carried_obstacles e s @ new_obstacles rnd e s"
    by (rule step_obstacles)
  have due_frame: "isPlaying (gameState c) \<and> worldOffset c \<le> nextObstacleX c \<and>
      worldOffset c + CANVAS_WIDTH \<ge> nextObstacleX c \<longrightarrow>
      collectibles (gameLoop rnd c) = carried_collectibles Frame c @ new_collectibles rnd Frame c \<and>
      length (new_obstacles rnd Frame c) = 1 \<and>
      length (new_collectibles rnd Frame c) = 1 \<and>
      width (hd (new_obstacles rnd Frame c)) = 60 \<and>
      pos_x (position (hd (new_obstacles rnd Frame c))) + worldOffset (gameLoop rnd c)
        = nextObstacleX c \<and>
      nextObstacleX (gameLoop rnd c)
        = nextObstacleX c + width (hd (new_obstacles rnd Frame c)) + 200"
  proof (intro impI, elim conjE)
    assume playing: "isPlaying (gameState c)" and ahead: "worldOffset c \<le> nextObstacleX c"
      and "worldOffset c + CANVAS_WIDTH \<ge> nextObstacleX c"
    then have due: "spawn_due c" by (simp add: spawn_due_def)
    obtain obstacle where ob: "obstacles (gameLoop rnd c) = carried_obstacles Frame c @ [obstacle]"
      "pos_x (position obstacle) + worldOffset (gameLoop rnd c) = nextObstacleX c" "width obstacle = 60"
      using frame_obstacles_due [OF playing ahead due, of rnd] by blast
    obtain bone where bone: "collectibles (gameLoop rnd c) = carried_collectibles Frame c @ [bone]"
      using frame_collectibles_due [OF playing ahead due, of rnd] by blast
    have new: "new_obstacles rnd Frame c = [obstacle]" "new_collectibles rnd Frame c = [bone]"
      by (simp_all add: new_obstacles_def new_collectibles_def ob(1) bone)
    show "collectibles (gameLoop rnd c) = carried_collectibles Frame c @ new_collectibles rnd Frame c \<and>
      length (new_obstacles rnd Frame c) = 1 \<and>
      length (new_collectibles rnd Frame c) = 1 \<and>
      width (hd (new_obstacles rnd Frame c)) = 60 \<and>
      pos_x (position (hd (new_obstacles rnd Frame c))) + worldOffset (gameLoop rnd c)
        = nextObstacleX c \<and>
      nextObstacleX (gameLoop rnd c)
        = nextObstacleX c + width (hd (new_obstacles rnd Frame c)) + 200"
      using playing due by (simp add: new ob(2,3) bone gameLoop_cursor)
  qed
  have idle_frame: "isPlaying (gameState c) \<and> \<not> worldOffset c + CANVAS_WIDTH \<ge> nextObstacleX c \<longrightarrow>
      new_obstacles rnd Frame c = [] \<and> new_collectibles rnd Frame c = [] \<and>
      nextObstacleX (gameLoop rnd c) = nextObstacleX c"
  proof (intro impI, elim conjE)
    assume playing: "isPlaying (gameState c)" and "\<not> worldOffset c + CANVAS_WIDTH \<ge> nextObstacleX c"
    then have idle: "\<not> spawn_due c" by (simp add: spawn_due_def)
    show "new_obstacles rnd Frame c = [] \<and> new_collectibles rnd Frame c = [] \<and>
      nextObstacleX (gameLoop rnd c) = nextObstacleX c"
      using playing idle
      by (simp add: new_obstacles_def new_collectibles_def frame_not_due gameLoop_cursor)
  qed
  have due: "worldOffset c + CANVAS_WIDTH \<ge> nextObstacleX c \<longrightarrow>
      length (obstacles (spawn rnd c st)) = length (obstacles st) + 1 \<and>
      length (collectibles (spawn rnd c st)) = length (collectibles st) + 1 \<and>
      width (last (obstacles (spawn rnd c st))) = 60 \<and>
      pos_x (position (last (obstacles (spawn rnd c st)))) + worldOffset c = nextObstacleX c \<and>
      nextObstacleX (spawn rnd c st) = nextObstacleX c + width (last (obstacles (spawn rnd c st))) + 200"
    by (simp add: spawn_def Let_def)
  have idle: "\<not> worldOffset c + CANVAS_WIDTH \<ge> nextObstacleX c \<longrightarrow> spawn rnd c st = st"
    by (simp add: spawn_def Let_def)
  from session game link due_frame idle_frame due idle show ?thesis by blast
qed

text \<open>
  A playing session with the view at 400 and the cursor at 900: the first frame creates
  an obstacle at 900 (screen x 496 after the move) and a bone, the frame after the jump
  creates an obstacle at 1160 and a bone. On the first render the view ends at 800, before
  the cursor, and a frame creates nothing.
\<close>

theorem spawner_pairing_witness:
  "worldOffset (playing_hook\<lparr>worldOffset := 400\<rparr>) \<le> nextObstacleX (playing_hook\<lparr>worldOffset := 400\<rparr>) \<and>
   created_obstacles (\<lambda>_. draw_half) [Frame, Jump, Frame] (playing_hook\<lparr>worldOffset := 400\<rparr>)
     = [900, 1160] \<and>
   length (created_collectibles (\<lambda>_. draw_half) [Frame, Jump, Frame] (playing_hook\<lparr>worldOffset := 400\<rparr>)) = 2 \<and>
   Suc 0 < length (created_obstacles (\<lambda>_. draw_half) [Frame, Jump, Frame] (playing_hook\<lparr>worldOffset := 400\<rparr>)) \<and>
   created_obstacles (\<lambda>_. draw_half) [Frame, Jump, Frame] (playing_hook\<lparr>worldOffset := 400\<rparr>) ! Suc 0
     - created_obstacles (\<lambda>_. draw_half) [Frame, Jump, Frame] (playing_hook\<lparr>worldOffset := 400\<rparr>) ! 0
     = 260 \<and>
   isPlaying (gameState (playing_hook\<lparr>worldOffset := 400\<rparr>)) \<and>
   worldOffset (playing_hook\<lparr>worldOffset := 400\<rparr>) + CANVAS_WIDTH
     \<ge> nextObstacleX (playing_hook\<lparr>worldOffset := 400\<rparr>) \<and>
   length (obstacles (gameLoop (\<lambda>_. draw_half) (playing_hook\<lparr>worldOffset := 400\<rparr>))) = 1 \<and>
   length (collectibles (gameLoop (\<lambda>_. draw_half) (playing_hook\<lparr>worldOffset := 400\<rparr>))) = 1 \<and>
   pos_x (position (hd (obstacles (gameLoop (\<lambda>_. draw_half) (playing_hook\<lparr>worldOffset := 400\<rparr>)))))
     = 496 \<and>
   nextObstacleX (gameLoop (\<lambda>_. draw_half) (playing_hook\<lparr>worldOffset := 400\<rparr>)) = 1160 \<and>
   isPlaying (gameState playing_hook) \<and>
   \<not> worldOffset playing_hook + CANVAS_WIDTH \<ge> nextObstacleX playing_hook \<and>
   obstacles (gameLoop (\<lambda>_. draw_half) playing_hook) = [] \<and>
   collectibles (gameLoop (\<lambda>_. draw_half) playing_hook) = [] \<and>
   nextObstacleX (gameLoop (\<lambda>_. draw_half) playing_hook) = 900 \<and>
   spawn (\<lambda>_. draw_half) playing_hook playing_hook = playing_hook"
proof -
  let ?r = "\<lambda>_::nat. draw_half"
  let ?s = "playing_hook\<lparr>worldOffset := 400\<rparr>"
  let ?evs = "[Frame, Jump, Frame]"
  have cells: "isPlaying (gameState ?s)" "worldOffset ?s = 400" "nextObstacleX ?s = 900"
    "score (gameState ?s) = 0" "obstacles ?s = []" "collectibles ?s = []"
    by (simp_all add: playing_hook_def initial_hook_def CANVAS_WIDTH_def)
  have idle: "isPlaying (gameState playing_hook)" "worldOffset playing_hook = 0"
    "nextObstacleX playing_hook = 900" "obstacles playing_hook = []" "collectibles playing_hook = []"
    by (simp_all add: playing_hook_def initial_hook_def CANVAS_WIDTH_def)
  let ?s1 = "step ?r Frame ?s"
  let ?s2 = "step ?r Jump ?s1"
  have ahead0: "worldOffset ?s \<le> nextObstacleX ?s"
    by (simp add: cells)
  have due0: "spawn_due ?s"
    by (simp add: spawn_due_def cells CANVAS_WIDTH_def)
  have speed0: "getGameSpeed 0 = 4"
    by (simp add: getGameSpeed_def BASE_SCROLL_SPEED_def MAX_SCROLL_SPEED_def)
  have s1: "isPlaying (gameState ?s1)" "worldOffset ?s1 = 404" "nextObstacleX ?s1 = 1160"
    using cells due0 speed0 by (simp_all add: gameLoop_isPlaying gameLoop_worldOffset gameLoop_cursor)
  have s2: "isPlaying (gameState ?s2)" "worldOffset ?s2 = 404" "nextObstacleX ?s2 = 1160"
    using s1 by (simp_all add: jump_cells)
  have due2: "spawn_due ?s2"
    using s2 by (simp add: spawn_due_def CANVAS_WIDTH_def)
  have ahead1: "worldOffset ?s1 \<le> nextObstacleX ?s1" and ahead2: "worldOffset ?s2 \<le> nextObstacleX ?s2"
    by (simp_all only: s1 s2)
  have created: "created_obstacles ?r ?evs ?s = [900, 1160]"
    using step_created(1) [OF ahead0, of ?r Frame] step_created(1) [OF ahead1, of ?r Jump]
      step_created(1) [OF ahead2, of ?r Frame] cells(1,3) due0 s2(1,3) due2
    by (simp del: step.simps)
  note run = spawner_pairing [of ?s ?r ?evs 0 Frame ?s ?s]
  note idle_run = spawner_pairing [of ?s ?r ?evs 0 Frame playing_hook playing_hook]
  have len: "length (created_collectibles ?r ?evs ?s) = 2"
    using run ahead0 unfolding created by simp
  have gap: "created_obstacles ?r ?evs ?s ! Suc 0 - created_obstacles ?r ?evs ?s ! 0 = 260"
    using run ahead0 unfolding created by simp
  have due: "worldOffset ?s + CANVAS_WIDTH \<ge> nextObstacleX ?s"
    by (simp add: cells CANVAS_WIDTH_def)
  have carried: "carried_obstacles Frame ?s = []" "carried_collectibles Frame ?s = []"
    "carried_obstacles Frame playing_hook = []" "carried_collectibles Frame playing_hook = []"
    by (simp_all add: carried_obstacles_def carried_collectibles_def cells idle)
  have frame: "obstacles (gameLoop ?r ?s) = new_obstacles ?r Frame ?s"
    "collectibles (gameLoop ?r ?s) = new_collectibles ?r Frame ?s"
    using run cells(1) ahead0 due by (simp_all add: carried)
  have spawned: "length (obstacles (gameLoop ?r ?s)) = 1" "length (collectibles (gameLoop ?r ?s)) = 1"
    "pos_x (position (hd (obstacles (gameLoop ?r ?s)))) = 496"
    "nextObstacleX (gameLoop ?r ?s) = 1160"
    using run cells(1) ahead0 due s1(2) unfolding frame by (simp_all add: cells)
  have not_due: "\<not> worldOffset playing_hook + CANVAS_WIDTH \<ge> nextObstacleX playing_hook"
    by (simp add: idle CANVAS_WIDTH_def)
  have idle_link: "obstacles (gameLoop ?r playing_hook) = new_obstacles ?r Frame playing_hook"
    "collectibles (gameLoop ?r playing_hook) = new_collectibles ?r Frame playing_hook"
    by (simp_all add: new_obstacles_def new_collectibles_def carried)
  have unchanged: "obstacles (gameLoop ?r playing_hook) = []"
    "collectibles (gameLoop ?r playing_hook) = []"
    "nextObstacleX (gameLoop ?r playing_hook) = 900"
    "spawn ?r playing_hook playing_hook = playing_hook"
    using idle_run idle(1) not_due unfolding idle_link by (simp_all add: idle)
  show ?thesis
    unfolding created using ahead0 len gap cells(1) due spawned idle(1) not_due unchanged by simp
qed

end
